theory Spec2Isabelle
  imports Main "HOL-Library.Sublist"
begin

section \<open>Workout API: categories, training centres and athletes\<close>

text \<open>
  The three routers of \<^verbatim>\<open>workout_api\<close> are request handlers over one relational
  store. Each handler is embedded as a function from its arguments and the store to a
  result and, where it writes, the store afterwards. A handler that raises returns
  \<open>Inl\<close> of the exception; a handler that returns gives \<open>Inr\<close> of the status code of
  its route decorator and the value returned.

  Strings are \<open>char list\<close>, a character being one byte of the UTF-8 text: the two
  accented letters of the messages are written out as their two bytes each.
\<close>

subsection \<open>Values\<close>

text \<open>
  A UUID is held as its canonical text, which is what the f-strings of the handlers
  print. A timestamp is a number of microseconds. A float is held as mantissa and
  binary exponent; the handlers only store and return floats.
\<close>

type_synonym uuid = string
type_synonym datetime = nat

datatype pyfloat = PyFloat int int

definition a_tilde :: string where
  "a_tilde = [CHR 0xC3, CHR 0xA3]"

definition a_acute :: string where
  "a_acute = [CHR 0xC3, CHR 0xA1]"

abbreviation HTTP_200_OK :: nat where "HTTP_200_OK \<equiv> 200"
abbreviation HTTP_201_CREATED :: nat where "HTTP_201_CREATED \<equiv> 201"
abbreviation HTTP_204_NO_CONTENT :: nat where "HTTP_204_NO_CONTENT \<equiv> 204"
abbreviation HTTP_303_SEE_OTHER :: nat where "HTTP_303_SEE_OTHER \<equiv> 303"
abbreviation HTTP_400_BAD_REQUEST :: nat where "HTTP_400_BAD_REQUEST \<equiv> 400"
abbreviation HTTP_404_NOT_FOUND :: nat where "HTTP_404_NOT_FOUND \<equiv> 404"

text \<open>
  The exceptions a handler can end with: the \<open>HTTPException\<close> it raises itself, with
  status code and detail; an \<open>IntegrityError\<close> of the store that it does not catch; a
  \<open>ValidationError\<close> of a schema built from a row whose relationship is missing; the
  \<open>InvalidRequestError\<close> of refreshing a row that is no longer in the store.
\<close>

datatype exn =
    HTTPException nat string
  | IntegrityError
  | ValidationError
  | InvalidRequestError

subsection \<open>Tables\<close>

text \<open>
  Modelled from the spec: the model classes (\<^verbatim>\<open>models.py\<close> of each module) are
  not among the sources. Section 3 of the specification gives their columns: an internal
  primary key \<open>pk_id\<close>, the external \<open>id\<close>, the fields of the entity and, for an athlete,
  the two foreign keys. A table is the list of its rows in store order, which is the
  order \<^verbatim>\<open>.scalars().first()\<close> and \<^verbatim>\<open>.scalars().all()\<close> read it in.
\<close>

record categoria_model =
  cat_pk_id :: nat
  cat_id :: uuid
  cat_nome :: string

record centro_treinamento_model =
  ct_pk_id :: nat
  ct_id :: uuid
  ct_nome :: string
  ct_endereco :: string
  ct_proprietario :: string

record atleta_model =
  atl_pk_id :: nat
  atl_id :: uuid
  atl_criado_em :: datetime
  atl_nome :: string
  atl_cpf :: string
  atl_idade :: int
  atl_peso :: pyfloat
  atl_altura :: pyfloat
  atl_sexo :: string
  atl_categoria_id :: nat
  atl_centro_treinamento_id :: nat

record store =
  categorias :: "categoria_model list"
  centros_treinamento :: "centro_treinamento_model list"
  atletas :: "atleta_model list"

text \<open>
  Modelled from the spec: the primary key is an internal sequence of the store. A new
  row gets a key above every key of its table; \<open>0\<close> stands for the key of a model
  object that has not been written yet.
\<close>

definition next_pk :: "nat list \<Rightarrow> nat" where
  "next_pk pks = Suc (fold max pks 0)"

subsection \<open>Schemas\<close>

text \<open>
  Modelled from the spec: the schema classes (\<^verbatim>\<open>schemas.py\<close> of each module) are
  not among the sources; only \<^verbatim>\<open>BaseSchema\<close> and \<^verbatim>\<open>OutMixin\<close> are. Sections 3 and
  4 of the specification give the shapes: an input names its category and training
  centre by nested objects carrying \<open>nome\<close>; an output adds \<open>id\<close> (and \<open>criado_em\<close> for
  an athlete) to the input; the list projection of an athlete is
  \<open>{nome, categoria.nome, centro_treinamento.nome}\<close>; a patch carries the scalar fields
  of an athlete, each set or unset.
\<close>

record categoria_in =
  cin_nome :: string

record categoria_out =
  cout_id :: uuid
  cout_nome :: string

record centro_treinamento_in =
  ctin_nome :: string
  ctin_endereco :: string
  ctin_proprietario :: string

record centro_treinamento_out =
  ctout_id :: uuid
  ctout_nome :: string
  ctout_endereco :: string
  ctout_proprietario :: string

record centro_treinamento_atleta =
  cta_nome :: string

record atleta_in =
  ain_nome :: string
  ain_cpf :: string
  ain_idade :: int
  ain_peso :: pyfloat
  ain_altura :: pyfloat
  ain_sexo :: string
  ain_categoria :: categoria_in
  ain_centro_treinamento :: centro_treinamento_atleta

record atleta_out =
  aout_id :: uuid
  aout_criado_em :: datetime
  aout_nome :: string
  aout_cpf :: string
  aout_idade :: int
  aout_peso :: pyfloat
  aout_altura :: pyfloat
  aout_sexo :: string
  aout_categoria :: categoria_in
  aout_centro_treinamento :: centro_treinamento_atleta

record atleta_get_all_details =
  agad_nome :: string
  agad_categoria :: categoria_in
  agad_centro_treinamento :: centro_treinamento_atleta

record atleta_update =
  aup_nome :: "string option"
  aup_cpf :: "string option"
  aup_idade :: "int option"
  aup_peso :: "pyfloat option"
  aup_altura :: "pyfloat option"
  aup_sexo :: "string option"

subsection \<open>Pagination\<close>

text \<open>
  Modelled from the spec: the query parameters \<open>page\<close> (counting from one) and \<open>size\<close>
  (the page length), and the page envelope (items, total, page, size) of section 6 of
  the specification. Both belong to the pagination library, not to the sources.
\<close>

record params =
  par_page :: nat
  par_size :: nat

record 'a page =
  page_items :: "'a list"
  page_total :: nat
  page_page :: nat
  page_size :: nat

text \<open>
  Modelled from the spec: \<^verbatim>\<open>paginate\<close> belongs to the pagination library, not to
  the sources. Sections 2 and 6 of the specification describe it: it wraps a fully
  materialised result list into a page envelope, the items being the slice of the list
  that the parameters select and the total being the count of all items of the list.
\<close>

definition paginate :: "params \<Rightarrow> 'a list \<Rightarrow> 'a page" where
  "paginate p sequence =
     \<lparr>page_items = take (par_size p) (drop (par_size p * (par_page p - 1)) sequence),
      page_total = length sequence,
      page_page = par_page p,
      page_size = par_size p\<rparr>"

subsection \<open>Category router\<close>

text \<open>
  The model object built from the dumped output shape; its primary key is not assigned
  before the commit.
\<close>

definition CategoriaModel :: "categoria_out \<Rightarrow> categoria_model" where
  "CategoriaModel out = \<lparr>cat_pk_id = 0, cat_id = cout_id out, cat_nome = cout_nome out\<rparr>"

text \<open>
  Modelled from the spec: \<open>Category.nome\<close> is unique in the store (section 3), a
  constraint that \<^verbatim>\<open>categorias/models.py\<close> declares and the store enforces. Adding a
  row and committing raises \<open>IntegrityError\<close> when a row with that \<open>nome\<close> exists and
  leaves the store as it was; otherwise the row is appended with a new primary key.
\<close>

definition commit_add_categoria :: "categoria_model \<Rightarrow> store \<Rightarrow> exn + store" where
  "commit_add_categoria row s =
     (if cat_nome row \<in> set (map cat_nome (categorias s)) then Inl IntegrityError
      else Inr (s\<lparr>categorias := categorias s @
                  [row\<lparr>cat_pk_id := next_pk (map cat_pk_id (categorias s))\<rparr>]\<rparr>))"

text \<open>
  \<^verbatim>\<open>create\<close> of \<^verbatim>\<open>categorias/controllers.py\<close>. The value of \<^verbatim>\<open>uuid4()\<close> is the
  argument \<open>new_id\<close>. \<^verbatim>\<open>get_all\<close> and \<^verbatim>\<open>get_by_id\<close> return rows; the page
  parameters, which the library reads from the request, are an argument.
\<close>

definition categorias_create ::
  "uuid \<Rightarrow> categoria_in \<Rightarrow> store \<Rightarrow> (exn + nat \<times> categoria_out) \<times> store" where
  "categorias_create new_id categoria_in s =
     (let categoria_out = \<lparr>cout_id = new_id, cout_nome = cin_nome categoria_in\<rparr> in
      case commit_add_categoria (CategoriaModel categoria_out) s of
        Inr s' \<Rightarrow> (Inr (HTTP_201_CREATED, categoria_out), s')
      | Inl _ \<Rightarrow>
          (Inl (HTTPException HTTP_303_SEE_OTHER
                  (''J'' @ a_acute @ '' existe uma categoria cadastrada com esse nome: ''
                     @ cout_nome categoria_out)), s))"

definition categorias_get_all :: "params \<Rightarrow> store \<Rightarrow> exn + nat \<times> categoria_model page" where
  "categorias_get_all p s = Inr (HTTP_200_OK, paginate p (categorias s))"

definition categorias_get_by_id :: "uuid \<Rightarrow> store \<Rightarrow> exn + nat \<times> categoria_model" where
  "categorias_get_by_id ident s =
     (case find (\<lambda>c. cat_id c = ident) (categorias s) of
        None \<Rightarrow> Inl (HTTPException HTTP_404_NOT_FOUND
                      (''Categoria n'' @ a_tilde @ ''o encontrada no id: '' @ ident))
      | Some categoria \<Rightarrow> Inr (HTTP_200_OK, categoria))"

subsection \<open>Training-centre router\<close>

definition CentroTreinamentoModel :: "centro_treinamento_out \<Rightarrow> centro_treinamento_model" where
  "CentroTreinamentoModel out =
     \<lparr>ct_pk_id = 0, ct_id = ctout_id out, ct_nome = ctout_nome out,
      ct_endereco = ctout_endereco out, ct_proprietario = ctout_proprietario out\<rparr>"

text \<open>
  Modelled from the spec: \<open>TrainingCenter.nome\<close> is unique in the store (section 3), a
  constraint that \<^verbatim>\<open>centro_treinamento/models.py\<close> declares and the store enforces;
  the commit behaves as for a category.
\<close>

definition commit_add_centro_treinamento ::
  "centro_treinamento_model \<Rightarrow> store \<Rightarrow> exn + store" where
  "commit_add_centro_treinamento row s =
     (if ct_nome row \<in> set (map ct_nome (centros_treinamento s)) then Inl IntegrityError
      else Inr (s\<lparr>centros_treinamento := centros_treinamento s @
                  [row\<lparr>ct_pk_id := next_pk (map ct_pk_id (centros_treinamento s))\<rparr>]\<rparr>))"

definition centro_treinamento_create ::
  "uuid \<Rightarrow> centro_treinamento_in \<Rightarrow> store \<Rightarrow> (exn + nat \<times> centro_treinamento_out) \<times> store" where
  "centro_treinamento_create new_id centro_treinamento_in s =
     (let centro_treinamento_out =
            \<lparr>ctout_id = new_id, ctout_nome = ctin_nome centro_treinamento_in,
             ctout_endereco = ctin_endereco centro_treinamento_in,
             ctout_proprietario = ctin_proprietario centro_treinamento_in\<rparr> in
      case commit_add_centro_treinamento (CentroTreinamentoModel centro_treinamento_out) s of
        Inr s' \<Rightarrow> (Inr (HTTP_201_CREATED, centro_treinamento_out), s')
      | Inl _ \<Rightarrow>
          (Inl (HTTPException HTTP_303_SEE_OTHER
                  (''J'' @ a_acute @ '' existe um centro de treinamento cadastrado com esse nome: ''
                     @ ctout_nome centro_treinamento_out)), s))"

definition centro_treinamento_get_all ::
  "params \<Rightarrow> store \<Rightarrow> exn + nat \<times> centro_treinamento_model page" where
  "centro_treinamento_get_all p s = Inr (HTTP_200_OK, paginate p (centros_treinamento s))"

definition centro_treinamento_get_by_id ::
  "uuid \<Rightarrow> store \<Rightarrow> exn + nat \<times> centro_treinamento_model" where
  "centro_treinamento_get_by_id ident s =
     (case find (\<lambda>c. ct_id c = ident) (centros_treinamento s) of
        None \<Rightarrow> Inl (HTTPException HTTP_404_NOT_FOUND
                      (''Centro de treinamento n'' @ a_tilde @ ''o encontrado no id: '' @ ident))
      | Some centro_treinamento \<Rightarrow> Inr (HTTP_200_OK, centro_treinamento))"

subsection \<open>Athlete router\<close>

text \<open>
  The output shape that \<^verbatim>\<open>post\<close> builds from the generated id, the timestamp and
  the dumped input.
\<close>

definition AtletaOut :: "uuid \<Rightarrow> datetime \<Rightarrow> atleta_in \<Rightarrow> atleta_out" where
  "AtletaOut ident criado_em atleta_in =
     \<lparr>aout_id = ident, aout_criado_em = criado_em,
      aout_nome = ain_nome atleta_in, aout_cpf = ain_cpf atleta_in,
      aout_idade = ain_idade atleta_in, aout_peso = ain_peso atleta_in,
      aout_altura = ain_altura atleta_in, aout_sexo = ain_sexo atleta_in,
      aout_categoria = ain_categoria atleta_in,
      aout_centro_treinamento = ain_centro_treinamento atleta_in\<rparr>"

text \<open>
  The model object built from the output shape without its two nested objects; the
  foreign keys are assigned afterwards.
\<close>

definition AtletaModel :: "atleta_out \<Rightarrow> atleta_model" where
  "AtletaModel out =
     \<lparr>atl_pk_id = 0, atl_id = aout_id out, atl_criado_em = aout_criado_em out,
      atl_nome = aout_nome out, atl_cpf = aout_cpf out, atl_idade = aout_idade out,
      atl_peso = aout_peso out, atl_altura = aout_altura out, atl_sexo = aout_sexo out,
      atl_categoria_id = 0, atl_centro_treinamento_id = 0\<rparr>"

text \<open>
  Modelled from the spec: \<open>Athlete.cpf\<close> is unique in the store (section 3), a
  constraint that \<^verbatim>\<open>atleta/models.py\<close> declares and the store enforces. Adding an
  athlete row and committing raises \<open>IntegrityError\<close> when a row with that \<open>cpf\<close>
  exists and leaves the store as it was; otherwise the row is appended with a new
  primary key.
\<close>

definition commit_add_atleta :: "atleta_model \<Rightarrow> store \<Rightarrow> exn + store" where
  "commit_add_atleta row s =
     (if atl_cpf row \<in> set (map atl_cpf (atletas s)) then Inl IntegrityError
      else Inr (s\<lparr>atletas := atletas s @
                  [row\<lparr>atl_pk_id := next_pk (map atl_pk_id (atletas s))\<rparr>]\<rparr>))"

text \<open>
  Modelled from the spec: committing a changed row writes it through its primary key.
  By the uniqueness of \<open>cpf\<close> the commit raises \<open>IntegrityError\<close>, and leaves the store
  as it was, when the \<open>cpf\<close> of the row was changed to one that a row with another
  primary key carries.
\<close>

definition commit_update_atleta :: "atleta_model \<Rightarrow> atleta_model \<Rightarrow> store \<Rightarrow> exn + store" where
  "commit_update_atleta old new s =
     (if atl_cpf new \<noteq> atl_cpf old \<and>
         (\<exists>r \<in> set (atletas s). atl_pk_id r \<noteq> atl_pk_id old \<and> atl_cpf r = atl_cpf new)
      then Inl IntegrityError
      else Inr (s\<lparr>atletas :=
                  map (\<lambda>r. if atl_pk_id r = atl_pk_id old then new else r) (atletas s)\<rparr>))"

text \<open>
  Modelled from the spec: deleting a row and committing removes it through its primary
  key.
\<close>

definition commit_delete_atleta :: "atleta_model \<Rightarrow> store \<Rightarrow> store" where
  "commit_delete_atleta row s =
     s\<lparr>atletas := filter (\<lambda>r. atl_pk_id r \<noteq> atl_pk_id row) (atletas s)\<rparr>"

text \<open>
  \<^verbatim>\<open>db_session.refresh\<close>: the row is read again through its primary key. A row
  that is gone would raise; \<^verbatim>\<open>partial_update\<close> refreshes a row it has just written.
\<close>

definition refresh :: "atleta_model \<Rightarrow> store \<Rightarrow> atleta_model option" where
  "refresh row s = find (\<lambda>r. atl_pk_id r = atl_pk_id row) (atletas s)"

text \<open>
  Modelled from the spec: the relationships of an athlete row, which
  \<^verbatim>\<open>atleta/models.py\<close> declares and the output schemas read through
  \<^verbatim>\<open>from_attributes\<close>, are the rows its two foreign keys point to (section 3). A
  schema built from a row with a missing relationship fails validation.
\<close>

definition atleta_categoria :: "store \<Rightarrow> atleta_model \<Rightarrow> categoria_model option" where
  "atleta_categoria s a = find (\<lambda>c. cat_pk_id c = atl_categoria_id a) (categorias s)"

definition atleta_centro_treinamento ::
  "store \<Rightarrow> atleta_model \<Rightarrow> centro_treinamento_model option" where
  "atleta_centro_treinamento s a =
     find (\<lambda>c. ct_pk_id c = atl_centro_treinamento_id a) (centros_treinamento s)"

definition AtletaOut_model_validate :: "store \<Rightarrow> atleta_model \<Rightarrow> atleta_out option" where
  "AtletaOut_model_validate s a =
     (case atleta_categoria s a of
        None \<Rightarrow> None
      | Some c \<Rightarrow>
          (case atleta_centro_treinamento s a of
             None \<Rightarrow> None
           | Some t \<Rightarrow>
               Some \<lparr>aout_id = atl_id a, aout_criado_em = atl_criado_em a,
                     aout_nome = atl_nome a, aout_cpf = atl_cpf a, aout_idade = atl_idade a,
                     aout_peso = atl_peso a, aout_altura = atl_altura a,
                     aout_sexo = atl_sexo a,
                     aout_categoria = \<lparr>cin_nome = cat_nome c\<rparr>,
                     aout_centro_treinamento = \<lparr>cta_nome = ct_nome t\<rparr>\<rparr>))"

definition AtletaGetAllDetails_model_validate ::
  "store \<Rightarrow> atleta_model \<Rightarrow> atleta_get_all_details option" where
  "AtletaGetAllDetails_model_validate s a =
     (case atleta_categoria s a of
        None \<Rightarrow> None
      | Some c \<Rightarrow>
          (case atleta_centro_treinamento s a of
             None \<Rightarrow> None
           | Some t \<Rightarrow>
               Some \<lparr>agad_nome = atl_nome a,
                     agad_categoria = \<lparr>cin_nome = cat_nome c\<rparr>,
                     agad_centro_treinamento = \<lparr>cta_nome = ct_nome t\<rparr>\<rparr>))"

text \<open>
  \<^verbatim>\<open>post\<close> of \<^verbatim>\<open>atleta/controllers.py\<close>. The values of \<^verbatim>\<open>uuid4()\<close> and
  \<^verbatim>\<open>datetime.utcnow()\<close> are the arguments \<open>new_id\<close> and \<open>now\<close>. Both 400 details
  interpolate \<open>categoria_name\<close>, as the source does.
\<close>

definition post ::
  "uuid \<Rightarrow> datetime \<Rightarrow> atleta_in \<Rightarrow> store \<Rightarrow> (exn + nat \<times> atleta_out) \<times> store" where
  "post new_id now atleta_in s =
     (let categoria_name = cin_nome (ain_categoria atleta_in);
          centro_treinamento_name = cta_nome (ain_centro_treinamento atleta_in) in
      case find (\<lambda>c. cat_nome c = categoria_name) (categorias s) of
        None \<Rightarrow>
          (Inl (HTTPException HTTP_400_BAD_REQUEST
                  (''A Categoria '' @ categoria_name @ '' n'' @ a_tilde @ ''o encontrada.'')), s)
      | Some categoria \<Rightarrow>
          (case find (\<lambda>c. ct_nome c = centro_treinamento_name) (centros_treinamento s) of
             None \<Rightarrow>
               (Inl (HTTPException HTTP_400_BAD_REQUEST
                       (''O centro de treinamento '' @ categoria_name
                          @ '' n'' @ a_tilde @ ''o foi encontrado.'')), s)
           | Some centro_treinamento \<Rightarrow>
               (let atleta_out = AtletaOut new_id now atleta_in;
                    atleta_model = (AtletaModel atleta_out)
                      \<lparr>atl_categoria_id := cat_pk_id categoria,
                       atl_centro_treinamento_id := ct_pk_id centro_treinamento\<rparr> in
                case commit_add_atleta atleta_model s of
                  Inr s' \<Rightarrow> (Inr (HTTP_201_CREATED, atleta_out), s')
                | Inl _ \<Rightarrow>
                    (Inl (HTTPException HTTP_303_SEE_OTHER
                            (''J'' @ a_acute @ '' existe um atleta cadastrado com o cpf: ''
                               @ aout_cpf atleta_out)), s))))"

text \<open>
  \<^verbatim>\<open>get_all\<close>: every row is validated into the list projection before the list is
  paginated; the first row that fails validation ends the handler.
\<close>

definition atleta_get_all ::
  "params \<Rightarrow> store \<Rightarrow> exn + nat \<times> atleta_get_all_details page" where
  "atleta_get_all p s =
     (case those (map (AtletaGetAllDetails_model_validate s) (atletas s)) of
        None \<Rightarrow> Inl ValidationError
      | Some details \<Rightarrow> Inr (HTTP_200_OK, paginate p details))"

definition atleta_get_by_id :: "uuid \<Rightarrow> store \<Rightarrow> exn + nat \<times> atleta_model" where
  "atleta_get_by_id ident s =
     (case find (\<lambda>a. atl_id a = ident) (atletas s) of
        None \<Rightarrow> Inl (HTTPException HTTP_404_NOT_FOUND
                      (''Atleta n'' @ a_tilde @ ''o encontrada com o id: '' @ ident))
      | Some atleta \<Rightarrow> Inr (HTTP_200_OK, atleta))"

definition get_by_name :: "string \<Rightarrow> store \<Rightarrow> exn + nat \<times> atleta_model" where
  "get_by_name nome s =
     (case find (\<lambda>a. atl_nome a = nome) (atletas s) of
        None \<Rightarrow> Inl (HTTPException HTTP_404_NOT_FOUND
                      (''Atleta n'' @ a_tilde @ ''o encontrada com o nome: '' @ nome))
      | Some atleta \<Rightarrow> Inr (HTTP_200_OK, atleta))"

definition get_by_cpf :: "string \<Rightarrow> store \<Rightarrow> exn + nat \<times> atleta_model" where
  "get_by_cpf cpf s =
     (case find (\<lambda>a. atl_cpf a = cpf) (atletas s) of
        None \<Rightarrow> Inl (HTTPException HTTP_404_NOT_FOUND
                      (''Atleta n'' @ a_tilde @ ''o encontrada com o cpf: '' @ cpf))
      | Some atleta \<Rightarrow> Inr (HTTP_200_OK, atleta))"

text \<open>
  \<^verbatim>\<open>model_dump(exclude_unset=True)\<close> of a patch: the fields that were set, as
  key and value, in the order of the schema. \<^verbatim>\<open>setattr\<close> writes one of them into
  the row object.
\<close>

datatype atleta_attr =
    Nome string
  | Cpf string
  | Idade int
  | Peso pyfloat
  | Altura pyfloat
  | Sexo string

definition set_fields :: "('a \<Rightarrow> atleta_attr) \<Rightarrow> 'a option \<Rightarrow> atleta_attr list" where
  "set_fields key v = (case v of None \<Rightarrow> [] | Some x \<Rightarrow> [key x])"

definition model_dump_exclude_unset :: "atleta_update \<Rightarrow> atleta_attr list" where
  "model_dump_exclude_unset u =
     set_fields Nome (aup_nome u) @ set_fields Cpf (aup_cpf u) @
     set_fields Idade (aup_idade u) @ set_fields Peso (aup_peso u) @
     set_fields Altura (aup_altura u) @ set_fields Sexo (aup_sexo u)"

fun setattr :: "atleta_attr \<Rightarrow> atleta_model \<Rightarrow> atleta_model" where
  "setattr (Nome v) a = a\<lparr>atl_nome := v\<rparr>"
| "setattr (Cpf v) a = a\<lparr>atl_cpf := v\<rparr>"
| "setattr (Idade v) a = a\<lparr>atl_idade := v\<rparr>"
| "setattr (Peso v) a = a\<lparr>atl_peso := v\<rparr>"
| "setattr (Altura v) a = a\<lparr>atl_altura := v\<rparr>"
| "setattr (Sexo v) a = a\<lparr>atl_sexo := v\<rparr>"

text \<open>
  \<^verbatim>\<open>partial_update\<close>: the \<open>IntegrityError\<close> of the commit is not caught here.
\<close>

definition partial_update ::
  "uuid \<Rightarrow> atleta_update \<Rightarrow> store \<Rightarrow> (exn + nat \<times> atleta_model) \<times> store" where
  "partial_update ident atleta_up s =
     (case find (\<lambda>a. atl_id a = ident) (atletas s) of
        None \<Rightarrow>
          (Inl (HTTPException HTTP_404_NOT_FOUND
                  (''Atleta n'' @ a_tilde @ ''o encontrada com o id: '' @ ident)), s)
      | Some atleta \<Rightarrow>
          (let atleta_update = model_dump_exclude_unset atleta_up;
               atleta' = fold setattr atleta_update atleta in
           case commit_update_atleta atleta atleta' s of
             Inl e \<Rightarrow> (Inl e, s)
           | Inr s' \<Rightarrow>
               (case refresh atleta' s' of
                  None \<Rightarrow> (Inl InvalidRequestError, s')
                | Some refreshed \<Rightarrow> (Inr (HTTP_200_OK, refreshed), s'))))"

definition delete :: "uuid \<Rightarrow> store \<Rightarrow> (exn + nat \<times> unit) \<times> store" where
  "delete ident s =
     (case find (\<lambda>a. atl_id a = ident) (atletas s) of
        None \<Rightarrow>
          (Inl (HTTPException HTTP_404_NOT_FOUND
                  (''Atleta n'' @ a_tilde @ ''o encontrada com o id: '' @ ident)), s)
      | Some atleta \<Rightarrow> (Inr (HTTP_204_NO_CONTENT, ()), commit_delete_atleta atleta s))"

subsection \<open>Constraints of the store\<close>

text \<open>
  The foreign keys of every athlete row resolve: the relational store enforces this,
  the lists of the model do not, so it is a condition on a store where a handler reads
  a relationship.
\<close>

definition fk_resolved :: "store \<Rightarrow> bool" where
  "fk_resolved s \<longleftrightarrow>
     (\<forall>a \<in> set (atletas s).
        atl_categoria_id a \<in> cat_pk_id ` set (categorias s) \<and>
        atl_centro_treinamento_id a \<in> ct_pk_id ` set (centros_treinamento s))"

text \<open>
  All constraints together: primary keys, the names of categories and training centres,
  the \<open>cpf\<close> and the external id of athletes are unique in their tables, and foreign
  keys resolve.
\<close>

definition store_ok :: "store \<Rightarrow> bool" where
  "store_ok s \<longleftrightarrow>
     distinct (map cat_pk_id (categorias s)) \<and> distinct (map cat_nome (categorias s)) \<and>
     distinct (map ct_pk_id (centros_treinamento s)) \<and>
     distinct (map ct_nome (centros_treinamento s)) \<and>
     distinct (map atl_pk_id (atletas s)) \<and> distinct (map atl_cpf (atletas s)) \<and>
     distinct (map atl_id (atletas s)) \<and> fk_resolved s"

text \<open>
  The stores that the handlers produce from the empty store, when \<^verbatim>\<open>uuid4()\<close>
  gives an athlete an id that no athlete row carries.
\<close>

inductive reachable :: "store \<Rightarrow> bool" where
  empty: "reachable \<lparr>categorias = [], centros_treinamento = [], atletas = []\<rparr>"
| categoria: "reachable s \<Longrightarrow> reachable (snd (categorias_create new_id categoria_in s))"
| centro: "reachable s \<Longrightarrow> reachable (snd (centro_treinamento_create new_id centro_in s))"
| atleta: "reachable s \<Longrightarrow> new_id \<notin> atl_id ` set (atletas s) \<Longrightarrow>
            reachable (snd (post new_id now atleta_in s))"
| patch: "reachable s \<Longrightarrow> reachable (snd (partial_update ident atleta_up s))"
| remove: "reachable s \<Longrightarrow> reachable (snd (delete ident s))"

subsection \<open>Example data\<close>

definition ex_categoria :: categoria_model where
  "ex_categoria =
     \<lparr>cat_pk_id = 1, cat_id = ''a8f1c2d4-0b6e-4c3a-9d57-1e2f3a4b5c6d'',
      cat_nome = ''Iniciante''\<rparr>"

definition ex_centro_treinamento :: centro_treinamento_model where
  "ex_centro_treinamento =
     \<lparr>ct_pk_id = 1, ct_id = ''b7e2d3c5-1a7f-4d4b-8e68-2f3a4b5c6d7e'',
      ct_nome = ''CT King'', ct_endereco = ''Rua X, Q02'', ct_proprietario = ''Marcos''\<rparr>"

text \<open>Two athletes with the same \<open>nome\<close> and different \<open>cpf\<close>.\<close>

definition ex_joao :: atleta_model where
  "ex_joao =
     \<lparr>atl_pk_id = 1, atl_id = ''c6d3e4b6-2b80-4e5c-9f79-3a4b5c6d7e8f'',
      atl_criado_em = 1700000000000000, atl_nome = ''Joao'', atl_cpf = ''12345678900'',
      atl_idade = 25, atl_peso = PyFloat 151 (- 1),
      atl_altura = PyFloat 7656119366529843 (- 52), atl_sexo = ''M'',
      atl_categoria_id = 1, atl_centro_treinamento_id = 1\<rparr>"

definition ex_outro_joao :: atleta_model where
  "ex_outro_joao =
     \<lparr>atl_pk_id = 2, atl_id = ''d5c4f5a7-3c91-4f6d-8a8a-4b5c6d7e8f90'',
      atl_criado_em = 1700000360000000, atl_nome = ''Joao'', atl_cpf = ''98765432100'',
      atl_idade = 31, atl_peso = PyFloat 165 (- 1),
      atl_altura = PyFloat 15 (- 3), atl_sexo = ''M'',
      atl_categoria_id = 1, atl_centro_treinamento_id = 1\<rparr>"

definition ex_store :: store where
  "ex_store =
     \<lparr>categorias = [ex_categoria], centros_treinamento = [ex_centro_treinamento],
      atletas = []\<rparr>"

definition ex_store_atletas :: store where
  "ex_store_atletas =
     \<lparr>categorias = [ex_categoria], centros_treinamento = [ex_centro_treinamento],
      atletas = [ex_joao, ex_outro_joao]\<rparr>"

definition ex_atleta_in :: atleta_in where
  "ex_atleta_in =
     \<lparr>ain_nome = ''Joao'', ain_cpf = ''12345678900'', ain_idade = 25,
      ain_peso = PyFloat 151 (- 1), ain_altura = PyFloat 7656119366529843 (- 52),
      ain_sexo = ''M'', ain_categoria = \<lparr>cin_nome = ''Iniciante''\<rparr>,
      ain_centro_treinamento = \<lparr>cta_nome = ''CT King''\<rparr>\<rparr>"

definition ex_new_id :: uuid where
  "ex_new_id = ''e4b5a6c8-4da2-4a7e-9b9b-5c6d7e8f9012''"

text \<open>The patch \<^verbatim>\<open>{"peso": 80.5}\<close> and a patch that sets only \<open>cpf\<close>.\<close>

definition ex_patch_peso :: atleta_update where
  "ex_patch_peso =
     \<lparr>aup_nome = None, aup_cpf = None, aup_idade = None,
      aup_peso = Some (PyFloat 161 (- 1)), aup_altura = None, aup_sexo = None\<rparr>"

definition ex_patch_cpf :: atleta_update where
  "ex_patch_cpf =
     \<lparr>aup_nome = None, aup_cpf = Some ''98765432100'', aup_idade = None,
      aup_peso = None, aup_altura = None, aup_sexo = None\<rparr>"

lemmas ex_defs =
  ex_categoria_def ex_centro_treinamento_def ex_joao_def ex_outro_joao_def
  ex_store_def ex_store_atletas_def ex_atleta_in_def ex_new_id_def
  ex_patch_peso_def ex_patch_cpf_def

section \<open>Lookups in a table\<close>

text \<open>
  \<^verbatim>\<open>.scalars().first()\<close> on a select filtered by one column is \<^const>\<open>find\<close>: the
  first row in store order whose column has the value, or nothing.
\<close>

lemma find_absent:
  "k \<notin> f ` set xs \<Longrightarrow> find (\<lambda>x. f x = k) xs = None"
  by (induction xs) auto

lemma find_present:
  "k \<in> f ` set xs \<Longrightarrow> \<exists>x \<in> set xs. f x = k \<and> find (\<lambda>x. f x = k) xs = Some x"
  by (induction xs) auto

lemma find_first_match:
  "xs = pre @ x # rest \<Longrightarrow> f x = k \<Longrightarrow> k \<notin> f ` set pre \<Longrightarrow>
     find (\<lambda>x. f x = k) xs = Some x"
  by (induction pre arbitrary: xs) auto

lemma find_by_key_distinct:
  "distinct (map f xs) \<Longrightarrow> x \<in> set xs \<Longrightarrow> find (\<lambda>y. f y = f x) xs = Some x"
  by (induction xs) (auto simp: image_iff)

lemma find_appended:
  "k \<notin> f ` set xs \<Longrightarrow> f x = k \<Longrightarrow> find (\<lambda>y. f y = k) (xs @ [x]) = Some x"
  by (induction xs) auto

lemma count_one:
  "distinct (map f xs) \<Longrightarrow> k \<in> f ` set xs \<Longrightarrow> length (filter (\<lambda>x. f x = k) xs) = 1"
  by (induction xs) (auto simp: image_iff filter_empty_conv)

lemma those_map_length:
  "\<forall>x \<in> set xs. f x \<noteq> None \<Longrightarrow> \<exists>ys. those (map f xs) = Some ys \<and> length ys = length xs"
  by (induction xs) auto

section \<open>Creating an athlete: the reference checks\<close>

lemma post_categoria_absent:
  assumes "cin_nome (ain_categoria atleta_in) \<notin> cat_nome ` set (categorias s)"
  shows "post new_id now atleta_in s =
           (Inl (HTTPException HTTP_400_BAD_REQUEST
                   (''A Categoria '' @ cin_nome (ain_categoria atleta_in)
                      @ '' n'' @ a_tilde @ ''o encontrada.'')), s)"
  using find_absent [OF assms] by (simp add: post_def)

lemma post_centro_treinamento_absent:
  assumes "cin_nome (ain_categoria atleta_in) \<in> cat_nome ` set (categorias s)"
      and "cta_nome (ain_centro_treinamento atleta_in) \<notin> ct_nome ` set (centros_treinamento s)"
  shows "post new_id now atleta_in s =
           (Inl (HTTPException HTTP_400_BAD_REQUEST
                   (''O centro de treinamento '' @ cin_nome (ain_categoria atleta_in)
                      @ '' n'' @ a_tilde @ ''o foi encontrado.'')), s)"
proof -
  from find_present [OF assms(1)] obtain c
    where "find (\<lambda>c. cat_nome c = cin_nome (ain_categoria atleta_in)) (categorias s) = Some c"
    by blast
  with find_absent [OF assms(2)] show ?thesis
    by (simp add: post_def)
qed

text \<open>
  Claim C1. When the \<open>categoria.nome\<close> of the input matches no category row, \<open>post\<close>
  ends with the 400 exception whose detail names that category, and the store
  afterwards is the store before: no athlete row is written.
\<close>

theorem post_missing_categoria_400:
  assumes "cin_nome (ain_categoria atleta_in) \<notin> cat_nome ` set (categorias s)"
  shows "post new_id now atleta_in s =
           (Inl (HTTPException HTTP_400_BAD_REQUEST
                   (''A Categoria '' @ cin_nome (ain_categoria atleta_in)
                      @ '' n'' @ a_tilde @ ''o encontrada.'')), s)
         \<and> sublist (cin_nome (ain_categoria atleta_in))
              (''A Categoria '' @ cin_nome (ain_categoria atleta_in)
                 @ '' n'' @ a_tilde @ ''o encontrada.'')"
proof
  show "post new_id now atleta_in s =
           (Inl (HTTPException HTTP_400_BAD_REQUEST
                   (''A Categoria '' @ cin_nome (ain_categoria atleta_in)
                      @ '' n'' @ a_tilde @ ''o encontrada.'')), s)"
    by (rule post_categoria_absent [OF assms])
  show "sublist (cin_nome (ain_categoria atleta_in))
              (''A Categoria '' @ cin_nome (ain_categoria atleta_in)
                 @ '' n'' @ a_tilde @ ''o encontrada.'')"
    by (rule sublist_appendI)
qed

theorem post_missing_categoria_400_witness:
  "''Avancado'' \<notin> cat_nome ` set (categorias ex_store) \<and>
   post ex_new_id 1700000000000000
     (ex_atleta_in\<lparr>ain_categoria := \<lparr>cin_nome = ''Avancado''\<rparr>\<rparr>) ex_store =
     (Inl (HTTPException HTTP_400_BAD_REQUEST
             (''A Categoria Avancado n'' @ a_tilde @ ''o encontrada.'')), ex_store)"
proof -
  have h: "cin_nome (ain_categoria (ex_atleta_in\<lparr>ain_categoria := \<lparr>cin_nome = ''Avancado''\<rparr>\<rparr>))
             \<notin> cat_nome ` set (categorias ex_store)"
    by (simp add: ex_defs)
  from post_missing_categoria_400 [OF h, of ex_new_id 1700000000000000] h
  show ?thesis by simp
qed

text \<open>
  Claim C2. When the category exists and the \<open>centro_treinamento.nome\<close> of the input
  matches no training-centre row, \<open>post\<close> ends with a 400 exception; its detail
  interpolates \<open>categoria_name\<close>, so it carries the name of the category, which exists,
  and not the name of the missing training centre. Here the input asks for the existing
  category \<open>Iniciante\<close> and the missing training centre \<open>CT Queen\<close>.
\<close>

theorem post_missing_centro_names_categoria:
  "post ex_new_id 1700000000000000
     (ex_atleta_in\<lparr>ain_centro_treinamento := \<lparr>cta_nome = ''CT Queen''\<rparr>\<rparr>) ex_store =
     (Inl (HTTPException HTTP_400_BAD_REQUEST
             (''O centro de treinamento Iniciante n'' @ a_tilde @ ''o foi encontrado.'')),
      ex_store)
   \<and> \<not> sublist ''CT Queen''
          (''O centro de treinamento Iniciante n'' @ a_tilde @ ''o foi encontrado.'')"
proof
  show "post ex_new_id 1700000000000000
     (ex_atleta_in\<lparr>ain_centro_treinamento := \<lparr>cta_nome = ''CT Queen''\<rparr>\<rparr>) ex_store =
     (Inl (HTTPException HTTP_400_BAD_REQUEST
             (''O centro de treinamento Iniciante n'' @ a_tilde @ ''o foi encontrado.'')),
      ex_store)"
    by (simp add: post_def ex_defs)
  show "\<not> sublist ''CT Queen''
          (''O centro de treinamento Iniciante n'' @ a_tilde @ ''o foi encontrado.'')"
    by (simp add: a_tilde_def sublist_code)
qed

text \<open>
  Claim C10. The category is looked up before the training centre: when neither name
  is in the store, \<open>post\<close> ends with the 400 exception of the missing category.
\<close>

theorem post_categoria_checked_first:
  assumes "cin_nome (ain_categoria atleta_in) \<notin> cat_nome ` set (categorias s)"
      and "cta_nome (ain_centro_treinamento atleta_in) \<notin> ct_nome ` set (centros_treinamento s)"
  shows "post new_id now atleta_in s =
           (Inl (HTTPException HTTP_400_BAD_REQUEST
                   (''A Categoria '' @ cin_nome (ain_categoria atleta_in)
                      @ '' n'' @ a_tilde @ ''o encontrada.'')), s)"
  using post_categoria_absent [OF assms(1)] .

theorem post_categoria_checked_first_witness:
  "''Avancado'' \<notin> cat_nome ` set (categorias ex_store) \<and>
   ''CT Queen'' \<notin> ct_nome ` set (centros_treinamento ex_store) \<and>
   post ex_new_id 1700000000000000
     (ex_atleta_in\<lparr>ain_categoria := \<lparr>cin_nome = ''Avancado''\<rparr>,
                   ain_centro_treinamento := \<lparr>cta_nome = ''CT Queen''\<rparr>\<rparr>) ex_store =
     (Inl (HTTPException HTTP_400_BAD_REQUEST
             (''A Categoria Avancado n'' @ a_tilde @ ''o encontrada.'')), ex_store)"
proof -
  let ?inp = "ex_atleta_in\<lparr>ain_categoria := \<lparr>cin_nome = ''Avancado''\<rparr>,
                            ain_centro_treinamento := \<lparr>cta_nome = ''CT Queen''\<rparr>\<rparr>"
  have h1: "cin_nome (ain_categoria ?inp) \<notin> cat_nome ` set (categorias ex_store)"
    by (simp add: ex_defs)
  have h2: "cta_nome (ain_centro_treinamento ?inp) \<notin> ct_nome ` set (centros_treinamento ex_store)"
    by (simp add: ex_defs)
  from post_categoria_checked_first [OF h1 h2, of ex_new_id 1700000000000000] h1 h2
  show ?thesis by simp
qed

section \<open>Creating a category or a training centre twice\<close>

text \<open>
  Claim C3. When the \<open>nome\<close> of the input is the \<open>nome\<close> of a category row, \<open>create\<close>
  ends with the 303 exception whose detail carries that \<open>nome\<close>, and the store
  afterwards is the store before; where the names of the table were unique before,
  exactly one row has that \<open>nome\<close> afterwards.
\<close>

theorem categorias_create_duplicate_303:
  assumes "cin_nome categoria_in \<in> cat_nome ` set (categorias s)"
  shows "categorias_create new_id categoria_in s =
           (Inl (HTTPException HTTP_303_SEE_OTHER
                   (''J'' @ a_acute @ '' existe uma categoria cadastrada com esse nome: ''
                      @ cin_nome categoria_in)), s)
         \<and> (distinct (map cat_nome (categorias s)) \<longrightarrow>
              length (filter (\<lambda>c. cat_nome c = cin_nome categoria_in)
                        (categorias (snd (categorias_create new_id categoria_in s)))) = 1)"
proof -
  have r: "categorias_create new_id categoria_in s =
           (Inl (HTTPException HTTP_303_SEE_OTHER
                   (''J'' @ a_acute @ '' existe uma categoria cadastrada com esse nome: ''
                      @ cin_nome categoria_in)), s)"
    using assms by (simp add: categorias_create_def commit_add_categoria_def CategoriaModel_def)
  show ?thesis
    using assms by (simp add: r count_one)
qed

theorem categorias_create_duplicate_303_witness:
  "''Iniciante'' \<in> cat_nome ` set (categorias ex_store) \<and>
   distinct (map cat_nome (categorias ex_store)) \<and>
   categorias_create ex_new_id \<lparr>cin_nome = ''Iniciante''\<rparr> ex_store =
     (Inl (HTTPException HTTP_303_SEE_OTHER
             (''J'' @ a_acute @ '' existe uma categoria cadastrada com esse nome: Iniciante'')),
      ex_store) \<and>
   length (filter (\<lambda>c. cat_nome c = ''Iniciante'')
             (categorias (snd (categorias_create ex_new_id \<lparr>cin_nome = ''Iniciante''\<rparr> ex_store)))) = 1"
proof -
  have h: "cin_nome \<lparr>cin_nome = ''Iniciante''\<rparr> \<in> cat_nome ` set (categorias ex_store)"
    by (simp add: ex_defs)
  have d: "distinct (map cat_nome (categorias ex_store))"
    by (simp add: ex_defs)
  note t = categorias_create_duplicate_303 [OF h, of ex_new_id]
  from t [THEN conjunct1]
  have r: "categorias_create ex_new_id \<lparr>cin_nome = ''Iniciante''\<rparr> ex_store =
     (Inl (HTTPException HTTP_303_SEE_OTHER
             (''J'' @ a_acute @ '' existe uma categoria cadastrada com esse nome: Iniciante'')),
      ex_store)"
    by simp
  from t [THEN conjunct2] d
  have l: "length (filter (\<lambda>c. cat_nome c = ''Iniciante'')
             (categorias (snd (categorias_create ex_new_id \<lparr>cin_nome = ''Iniciante''\<rparr> ex_store)))) = 1"
    by simp
  from h have h': "''Iniciante'' \<in> cat_nome ` set (categorias ex_store)"
    by simp
  from h' d r l show ?thesis by blast
qed

text \<open>The training-centre router does the same with its own table.\<close>

lemma centro_treinamento_create_duplicate:
  assumes "ctin_nome centro_treinamento_in \<in> ct_nome ` set (centros_treinamento s)"
  shows "centro_treinamento_create new_id centro_treinamento_in s =
           (Inl (HTTPException HTTP_303_SEE_OTHER
                   (''J'' @ a_acute
                      @ '' existe um centro de treinamento cadastrado com esse nome: ''
                      @ ctin_nome centro_treinamento_in)), s)"
  using assms
  by (simp add: centro_treinamento_create_def commit_add_centro_treinamento_def
      CentroTreinamentoModel_def)

text \<open>A create that succeeds keeps the names of its table unique.\<close>

lemma categorias_create_keeps_nome_unique:
  assumes "distinct (map cat_nome (categorias s))"
  shows "distinct (map cat_nome (categorias (snd (categorias_create new_id categoria_in s))))"
  using assms
  by (simp add: categorias_create_def commit_add_categoria_def CategoriaModel_def Let_def)

lemma centro_treinamento_create_keeps_nome_unique:
  assumes "distinct (map ct_nome (centros_treinamento s))"
  shows "distinct (map ct_nome
           (centros_treinamento (snd (centro_treinamento_create new_id centro_treinamento_in s))))"
  using assms
  by (simp add: centro_treinamento_create_def commit_add_centro_treinamento_def
      CentroTreinamentoModel_def Let_def)

section \<open>Lookups by id, name and cpf\<close>

text \<open>
  Claim C7. In each of the three routers, \<open>get_by_id\<close> of an id that no row of the table
  carries ends with the 404 exception whose detail ends in that id, and \<open>get_by_id\<close> of
  an id that a row carries returns, with status 200, a row of the table with that id.
\<close>

theorem get_by_id_found_or_404:
  "(ident \<notin> cat_id ` set (categorias s) \<longrightarrow>
      categorias_get_by_id ident s =
        Inl (HTTPException HTTP_404_NOT_FOUND
               (''Categoria n'' @ a_tilde @ ''o encontrada no id: '' @ ident))) \<and>
   (ident \<in> cat_id ` set (categorias s) \<longrightarrow>
      (\<exists>c \<in> set (categorias s). cat_id c = ident \<and>
         categorias_get_by_id ident s = Inr (HTTP_200_OK, c))) \<and>
   (ident \<notin> ct_id ` set (centros_treinamento s) \<longrightarrow>
      centro_treinamento_get_by_id ident s =
        Inl (HTTPException HTTP_404_NOT_FOUND
               (''Centro de treinamento n'' @ a_tilde @ ''o encontrado no id: '' @ ident))) \<and>
   (ident \<in> ct_id ` set (centros_treinamento s) \<longrightarrow>
      (\<exists>c \<in> set (centros_treinamento s). ct_id c = ident \<and>
         centro_treinamento_get_by_id ident s = Inr (HTTP_200_OK, c))) \<and>
   (ident \<notin> atl_id ` set (atletas s) \<longrightarrow>
      atleta_get_by_id ident s =
        Inl (HTTPException HTTP_404_NOT_FOUND
               (''Atleta n'' @ a_tilde @ ''o encontrada com o id: '' @ ident))) \<and>
   (ident \<in> atl_id ` set (atletas s) \<longrightarrow>
      (\<exists>a \<in> set (atletas s). atl_id a = ident \<and>
         atleta_get_by_id ident s = Inr (HTTP_200_OK, a)))"
proof (intro conjI impI)
  assume "ident \<notin> cat_id ` set (categorias s)"
  from find_absent [OF this]
  show "categorias_get_by_id ident s =
        Inl (HTTPException HTTP_404_NOT_FOUND
               (''Categoria n'' @ a_tilde @ ''o encontrada no id: '' @ ident))"
    by (simp add: categorias_get_by_id_def)
next
  assume "ident \<in> cat_id ` set (categorias s)"
  from find_present [OF this]
  show "\<exists>c \<in> set (categorias s). cat_id c = ident \<and>
          categorias_get_by_id ident s = Inr (HTTP_200_OK, c)"
    by (auto simp: categorias_get_by_id_def)
next
  assume "ident \<notin> ct_id ` set (centros_treinamento s)"
  from find_absent [OF this]
  show "centro_treinamento_get_by_id ident s =
        Inl (HTTPException HTTP_404_NOT_FOUND
               (''Centro de treinamento n'' @ a_tilde @ ''o encontrado no id: '' @ ident))"
    by (simp add: centro_treinamento_get_by_id_def)
next
  assume "ident \<in> ct_id ` set (centros_treinamento s)"
  from find_present [OF this]
  show "\<exists>c \<in> set (centros_treinamento s). ct_id c = ident \<and>
          centro_treinamento_get_by_id ident s = Inr (HTTP_200_OK, c)"
    by (auto simp: centro_treinamento_get_by_id_def)
next
  assume "ident \<notin> atl_id ` set (atletas s)"
  from find_absent [OF this]
  show "atleta_get_by_id ident s =
        Inl (HTTPException HTTP_404_NOT_FOUND
               (''Atleta n'' @ a_tilde @ ''o encontrada com o id: '' @ ident))"
    by (simp add: atleta_get_by_id_def)
next
  assume "ident \<in> atl_id ` set (atletas s)"
  from find_present [OF this]
  show "\<exists>a \<in> set (atletas s). atl_id a = ident \<and>
          atleta_get_by_id ident s = Inr (HTTP_200_OK, a)"
    by (auto simp: atleta_get_by_id_def)
qed

theorem get_by_id_found_or_404_witness:
  "categorias_get_by_id (cat_id ex_categoria) ex_store_atletas = Inr (HTTP_200_OK, ex_categoria) \<and>
   centro_treinamento_get_by_id (ct_id ex_centro_treinamento) ex_store_atletas =
     Inr (HTTP_200_OK, ex_centro_treinamento) \<and>
   atleta_get_by_id (atl_id ex_outro_joao) ex_store_atletas = Inr (HTTP_200_OK, ex_outro_joao) \<and>
   categorias_get_by_id ex_new_id ex_store_atletas =
     Inl (HTTPException HTTP_404_NOT_FOUND
            (''Categoria n'' @ a_tilde @ ''o encontrada no id: '' @ ex_new_id)) \<and>
   centro_treinamento_get_by_id ex_new_id ex_store_atletas =
     Inl (HTTPException HTTP_404_NOT_FOUND
            (''Centro de treinamento n'' @ a_tilde @ ''o encontrado no id: '' @ ex_new_id)) \<and>
   atleta_get_by_id ex_new_id ex_store_atletas =
     Inl (HTTPException HTTP_404_NOT_FOUND
            (''Atleta n'' @ a_tilde @ ''o encontrada com o id: '' @ ex_new_id))"
proof -
  have absent:
    "ex_new_id \<notin> cat_id ` set (categorias ex_store_atletas)"
    "ex_new_id \<notin> ct_id ` set (centros_treinamento ex_store_atletas)"
    "ex_new_id \<notin> atl_id ` set (atletas ex_store_atletas)"
    by (simp_all add: ex_defs)
  have present:
    "cat_id ex_categoria \<in> cat_id ` set (categorias ex_store_atletas)"
    "ct_id ex_centro_treinamento \<in> ct_id ` set (centros_treinamento ex_store_atletas)"
    "atl_id ex_outro_joao \<in> atl_id ` set (atletas ex_store_atletas)"
    by (simp_all add: ex_defs)
  have ids:
    "\<And>c. c \<in> set (categorias ex_store_atletas) \<Longrightarrow> c = ex_categoria"
    "\<And>c. c \<in> set (centros_treinamento ex_store_atletas) \<Longrightarrow> c = ex_centro_treinamento"
    "\<And>a. a \<in> set (atletas ex_store_atletas) \<Longrightarrow> atl_id a = atl_id ex_outro_joao
            \<Longrightarrow> a = ex_outro_joao"
    by (auto simp: ex_defs)
  from get_by_id_found_or_404 [of ex_new_id ex_store_atletas] absent
  have nf: "categorias_get_by_id ex_new_id ex_store_atletas =
     Inl (HTTPException HTTP_404_NOT_FOUND
            (''Categoria n'' @ a_tilde @ ''o encontrada no id: '' @ ex_new_id))"
    "centro_treinamento_get_by_id ex_new_id ex_store_atletas =
     Inl (HTTPException HTTP_404_NOT_FOUND
            (''Centro de treinamento n'' @ a_tilde @ ''o encontrado no id: '' @ ex_new_id))"
    "atleta_get_by_id ex_new_id ex_store_atletas =
     Inl (HTTPException HTTP_404_NOT_FOUND
            (''Atleta n'' @ a_tilde @ ''o encontrada com o id: '' @ ex_new_id))"
    by blast+
  from get_by_id_found_or_404 [of "cat_id ex_categoria" ex_store_atletas] present(1) ids(1)
  have f1: "categorias_get_by_id (cat_id ex_categoria) ex_store_atletas
              = Inr (HTTP_200_OK, ex_categoria)"
    by metis
  from get_by_id_found_or_404 [of "ct_id ex_centro_treinamento" ex_store_atletas]
    present(2) ids(2)
  have f2: "centro_treinamento_get_by_id (ct_id ex_centro_treinamento) ex_store_atletas =
     Inr (HTTP_200_OK, ex_centro_treinamento)"
    by metis
  from get_by_id_found_or_404 [of "atl_id ex_outro_joao" ex_store_atletas] present(3) ids(3)
  have f3: "atleta_get_by_id (atl_id ex_outro_joao) ex_store_atletas
              = Inr (HTTP_200_OK, ex_outro_joao)"
    by metis
  from nf f1 f2 f3 show ?thesis by blast
qed

text \<open>
  Claim C9. \<open>get_by_name\<close> returns, with status 200, the first row in store order whose
  \<open>nome\<close> is the one asked for, whatever rows follow it, and ends with the 404 exception
  whose detail ends in the name when no row has it; \<open>get_by_cpf\<close> does the same on
  \<open>cpf\<close>.
\<close>

theorem lookup_returns_first_match:
  "(nome \<notin> atl_nome ` set (atletas s) \<longrightarrow>
      get_by_name nome s =
        Inl (HTTPException HTTP_404_NOT_FOUND
               (''Atleta n'' @ a_tilde @ ''o encontrada com o nome: '' @ nome))) \<and>
   (\<forall>pre a rest.
      atletas s = pre @ a # rest \<and> atl_nome a = nome \<and> nome \<notin> atl_nome ` set pre \<longrightarrow>
      get_by_name nome s = Inr (HTTP_200_OK, a)) \<and>
   (cpf \<notin> atl_cpf ` set (atletas s) \<longrightarrow>
      get_by_cpf cpf s =
        Inl (HTTPException HTTP_404_NOT_FOUND
               (''Atleta n'' @ a_tilde @ ''o encontrada com o cpf: '' @ cpf))) \<and>
   (\<forall>pre a rest.
      atletas s = pre @ a # rest \<and> atl_cpf a = cpf \<and> cpf \<notin> atl_cpf ` set pre \<longrightarrow>
      get_by_cpf cpf s = Inr (HTTP_200_OK, a))"
proof (intro conjI impI allI)
  assume "nome \<notin> atl_nome ` set (atletas s)"
  from find_absent [OF this]
  show "get_by_name nome s =
        Inl (HTTPException HTTP_404_NOT_FOUND
               (''Atleta n'' @ a_tilde @ ''o encontrada com o nome: '' @ nome))"
    by (simp add: get_by_name_def)
next
  fix pre a rest
  assume "atletas s = pre @ a # rest \<and> atl_nome a = nome \<and> nome \<notin> atl_nome ` set pre"
  then have "find (\<lambda>x. atl_nome x = nome) (atletas s) = Some a"
    using find_first_match [of "atletas s" pre a rest atl_nome nome] by blast
  then show "get_by_name nome s = Inr (HTTP_200_OK, a)"
    by (simp add: get_by_name_def)
next
  assume "cpf \<notin> atl_cpf ` set (atletas s)"
  from find_absent [OF this]
  show "get_by_cpf cpf s =
        Inl (HTTPException HTTP_404_NOT_FOUND
               (''Atleta n'' @ a_tilde @ ''o encontrada com o cpf: '' @ cpf))"
    by (simp add: get_by_cpf_def)
next
  fix pre a rest
  assume "atletas s = pre @ a # rest \<and> atl_cpf a = cpf \<and> cpf \<notin> atl_cpf ` set pre"
  then have "find (\<lambda>x. atl_cpf x = cpf) (atletas s) = Some a"
    using find_first_match [of "atletas s" pre a rest atl_cpf cpf] by blast
  then show "get_by_cpf cpf s = Inr (HTTP_200_OK, a)"
    by (simp add: get_by_cpf_def)
qed

text \<open>
  In the example both rows are called \<open>Joao\<close>: the lookup by name returns the first of
  them, the lookup by the \<open>cpf\<close> of the second returns the second.
\<close>

theorem lookup_returns_first_match_witness:
  "atl_nome ex_joao = atl_nome ex_outro_joao \<and>
   get_by_name ''Joao'' ex_store_atletas = Inr (HTTP_200_OK, ex_joao) \<and>
   get_by_cpf ''98765432100'' ex_store_atletas = Inr (HTTP_200_OK, ex_outro_joao) \<and>
   get_by_name ''Maria'' ex_store_atletas =
     Inl (HTTPException HTTP_404_NOT_FOUND
            (''Atleta n'' @ a_tilde @ ''o encontrada com o nome: Maria'')) \<and>
   get_by_cpf ''00000000000'' ex_store_atletas =
     Inl (HTTPException HTTP_404_NOT_FOUND
            (''Atleta n'' @ a_tilde @ ''o encontrada com o cpf: 00000000000''))"
proof -
  have n: "atletas ex_store_atletas = [] @ ex_joao # [ex_outro_joao] \<and>
           atl_nome ex_joao = ''Joao'' \<and> ''Joao'' \<notin> atl_nome ` set []"
    by (simp add: ex_defs)
  have c: "atletas ex_store_atletas = [ex_joao] @ ex_outro_joao # [] \<and>
           atl_cpf ex_outro_joao = ''98765432100'' \<and> ''98765432100'' \<notin> atl_cpf ` set [ex_joao]"
    by (simp add: ex_defs)
  have a: "''Maria'' \<notin> atl_nome ` set (atletas ex_store_atletas)"
          "''00000000000'' \<notin> atl_cpf ` set (atletas ex_store_atletas)"
    by (simp_all add: ex_defs)
  have same: "atl_nome ex_joao = atl_nome ex_outro_joao"
    by (simp add: ex_defs)
  from lookup_returns_first_match [of "''Joao''" ex_store_atletas "''98765432100''"] n c
  have hit: "get_by_name ''Joao'' ex_store_atletas = Inr (HTTP_200_OK, ex_joao)"
            "get_by_cpf ''98765432100'' ex_store_atletas = Inr (HTTP_200_OK, ex_outro_joao)"
    by blast+
  from lookup_returns_first_match [of "''Maria''" ex_store_atletas "''00000000000''"] a
  have miss: "get_by_name ''Maria'' ex_store_atletas =
     Inl (HTTPException HTTP_404_NOT_FOUND
            (''Atleta n'' @ a_tilde @ ''o encontrada com o nome: '' @ ''Maria''))"
     "get_by_cpf ''00000000000'' ex_store_atletas =
     Inl (HTTPException HTTP_404_NOT_FOUND
            (''Atleta n'' @ a_tilde @ ''o encontrada com o cpf: '' @ ''00000000000''))"
    by blast+
  from same hit miss show ?thesis by simp
qed

section \<open>Listing\<close>

lemma details_validate_ok:
  assumes "atl_categoria_id a \<in> cat_pk_id ` set (categorias s)"
      and "atl_centro_treinamento_id a \<in> ct_pk_id ` set (centros_treinamento s)"
  shows "AtletaGetAllDetails_model_validate s a \<noteq> None"
proof -
  from find_present [OF assms(1)] obtain c where "atleta_categoria s a = Some c"
    by (auto simp: atleta_categoria_def)
  moreover from find_present [OF assms(2)] obtain t
    where "atleta_centro_treinamento s a = Some t"
    by (auto simp: atleta_centro_treinamento_def)
  ultimately show ?thesis
    by (simp add: AtletaGetAllDetails_model_validate_def)
qed

text \<open>
  Claim C8. For every store and every pagination parameters, \<open>get_all\<close> of the category
  router and of the training-centre router return, with status 200, a page whose
  \<open>total\<close> is the number of rows of the table; so does \<open>get_all\<close> of the athlete router
  in a store whose foreign keys resolve. The page parameters do not enter the total.
\<close>

theorem get_all_total_is_row_count:
  "(\<exists>pg. categorias_get_all p s = Inr (HTTP_200_OK, pg) \<and>
          page_total pg = length (categorias s)) \<and>
   (\<exists>pg. centro_treinamento_get_all p s = Inr (HTTP_200_OK, pg) \<and>
          page_total pg = length (centros_treinamento s)) \<and>
   (fk_resolved s \<longrightarrow>
      (\<exists>pg. atleta_get_all p s = Inr (HTTP_200_OK, pg) \<and>
             page_total pg = length (atletas s)))"
proof (intro conjI impI)
  show "\<exists>pg. categorias_get_all p s = Inr (HTTP_200_OK, pg) \<and>
          page_total pg = length (categorias s)"
    by (simp add: categorias_get_all_def paginate_def)
  show "\<exists>pg. centro_treinamento_get_all p s = Inr (HTTP_200_OK, pg) \<and>
          page_total pg = length (centros_treinamento s)"
    by (simp add: centro_treinamento_get_all_def paginate_def)
next
  assume "fk_resolved s"
  then have "\<forall>a \<in> set (atletas s). AtletaGetAllDetails_model_validate s a \<noteq> None"
    unfolding fk_resolved_def using details_validate_ok by blast
  from those_map_length [OF this] obtain ds
    where "those (map (AtletaGetAllDetails_model_validate s) (atletas s)) = Some ds"
      and "length ds = length (atletas s)"
    by blast
  then show "\<exists>pg. atleta_get_all p s = Inr (HTTP_200_OK, pg) \<and>
               page_total pg = length (atletas s)"
    by (simp add: atleta_get_all_def paginate_def)
qed

text \<open>
  Two athletes, asked for in pages of one: the first page holds one item and the total
  is two.
\<close>

theorem get_all_total_is_row_count_witness:
  "fk_resolved ex_store_atletas \<and>
   atleta_get_all \<lparr>par_page = 1, par_size = 1\<rparr> ex_store_atletas =
     Inr (HTTP_200_OK,
          \<lparr>page_items = [\<lparr>agad_nome = ''Joao'', agad_categoria = \<lparr>cin_nome = ''Iniciante''\<rparr>,
                          agad_centro_treinamento = \<lparr>cta_nome = ''CT King''\<rparr>\<rparr>],
           page_total = 2, page_page = 1, page_size = 1\<rparr>) \<and>
   (\<exists>pg. atleta_get_all \<lparr>par_page = 1, par_size = 1\<rparr> ex_store_atletas = Inr (HTTP_200_OK, pg) \<and>
          page_total pg = length (atletas ex_store_atletas))"
proof -
  have fk: "fk_resolved ex_store_atletas"
    by (simp add: fk_resolved_def ex_defs)
  have ev: "atleta_get_all \<lparr>par_page = 1, par_size = 1\<rparr> ex_store_atletas =
     Inr (HTTP_200_OK,
          \<lparr>page_items = [\<lparr>agad_nome = ''Joao'', agad_categoria = \<lparr>cin_nome = ''Iniciante''\<rparr>,
                          agad_centro_treinamento = \<lparr>cta_nome = ''CT King''\<rparr>\<rparr>],
           page_total = 2, page_page = 1, page_size = 1\<rparr>)"
    by (simp add: atleta_get_all_def AtletaGetAllDetails_model_validate_def paginate_def
        atleta_categoria_def atleta_centro_treinamento_def ex_defs)
  from get_all_total_is_row_count [of "\<lparr>par_page = 1, par_size = 1\<rparr>" ex_store_atletas] fk
  have "\<exists>pg. atleta_get_all \<lparr>par_page = 1, par_size = 1\<rparr> ex_store_atletas = Inr (HTTP_200_OK, pg) \<and>
          page_total pg = length (atletas ex_store_atletas)"
    by blast
  with fk ev show ?thesis by blast
qed

section \<open>Deleting an athlete\<close>

text \<open>
  Claim C5. In a store where no two athlete rows carry the same id (ids come from
  \<^verbatim>\<open>uuid4()\<close>), \<open>delete\<close> of an id that an athlete row carries returns status 204
  with no content, and \<open>get_by_id\<close> of that id on the store afterwards ends with the 404
  exception whose detail ends in the id.
\<close>

theorem delete_then_get_by_id_404:
  assumes "ident \<in> atl_id ` set (atletas s)"
      and "distinct (map atl_id (atletas s))"
  shows "\<exists>s'. delete ident s = (Inr (HTTP_204_NO_CONTENT, ()), s') \<and>
              atleta_get_by_id ident s' =
                Inl (HTTPException HTTP_404_NOT_FOUND
                       (''Atleta n'' @ a_tilde @ ''o encontrada com o id: '' @ ident))"
proof -
  from find_present [OF assms(1)] obtain a
    where a: "a \<in> set (atletas s)" "atl_id a = ident"
      and f: "find (\<lambda>x. atl_id x = ident) (atletas s) = Some a"
    by blast
  let ?s' = "commit_delete_atleta a s"
  have del: "delete ident s = (Inr (HTTP_204_NO_CONTENT, ()), ?s')"
    using f by (simp add: delete_def)
  have "ident \<notin> atl_id ` set (atletas ?s')"
  proof
    assume "ident \<in> atl_id ` set (atletas ?s')"
    then obtain r
      where r: "r \<in> set (atletas s)" "atl_pk_id r \<noteq> atl_pk_id a" "atl_id r = ident"
      by (auto simp: commit_delete_atleta_def)
    from assms(2) have "inj_on atl_id (set (atletas s))"
      by (simp add: distinct_map)
    with a r have "r = a"
      by (auto dest: inj_onD)
    with r show False by simp
  qed
  from find_absent [OF this]
  have "atleta_get_by_id ident ?s' =
      Inl (HTTPException HTTP_404_NOT_FOUND
             (''Atleta n'' @ a_tilde @ ''o encontrada com o id: '' @ ident))"
    by (simp add: atleta_get_by_id_def)
  with del show ?thesis by blast
qed

theorem delete_then_get_by_id_404_witness:
  "atl_id ex_joao \<in> atl_id ` set (atletas ex_store_atletas) \<and>
   distinct (map atl_id (atletas ex_store_atletas)) \<and>
   (\<exists>s'. delete (atl_id ex_joao) ex_store_atletas = (Inr (HTTP_204_NO_CONTENT, ()), s') \<and>
         atleta_get_by_id (atl_id ex_joao) s' =
           Inl (HTTPException HTTP_404_NOT_FOUND
                  (''Atleta n'' @ a_tilde @ ''o encontrada com o id: '' @ atl_id ex_joao)))"
proof -
  have h1: "atl_id ex_joao \<in> atl_id ` set (atletas ex_store_atletas)"
    by (simp add: ex_defs)
  have h2: "distinct (map atl_id (atletas ex_store_atletas))"
    by (simp add: ex_defs)
  from delete_then_get_by_id_404 [OF h1 h2] h1 h2 show ?thesis by blast
qed

text \<open>The row that goes is the one found; the other rows and tables stay.\<close>

lemma delete_removes_only_that_row:
  assumes "delete ident s = (Inr (HTTP_204_NO_CONTENT, ()), s')"
  shows "\<exists>a \<in> set (atletas s). atl_id a = ident \<and>
           atletas s' = filter (\<lambda>r. atl_pk_id r \<noteq> atl_pk_id a) (atletas s) \<and>
           categorias s' = categorias s \<and> centros_treinamento s' = centros_treinamento s"
proof (cases "find (\<lambda>a. atl_id a = ident) (atletas s)")
  case None
  with assms show ?thesis by (simp add: delete_def)
next
  case (Some a)
  then have "a \<in> set (atletas s)" "atl_id a = ident"
    by (auto simp: find_Some_iff)
  with assms Some show ?thesis
    by (auto simp: delete_def commit_delete_atleta_def)
qed

lemma delete_missing_404:
  assumes "ident \<notin> atl_id ` set (atletas s)"
  shows "delete ident s =
           (Inl (HTTPException HTTP_404_NOT_FOUND
                   (''Atleta n'' @ a_tilde @ ''o encontrada com o id: '' @ ident)), s)"
  using find_absent [OF assms] by (simp add: delete_def)

section \<open>Patching an athlete\<close>

text \<open>
  The loop over the dumped patch touches the six scalar columns only, and each column
  ends with the value the patch set for it, or with the value it had.
\<close>

lemma fold_setattr_kept:
  "atl_pk_id (fold setattr kvs a) = atl_pk_id a \<and>
   atl_id (fold setattr kvs a) = atl_id a \<and>
   atl_criado_em (fold setattr kvs a) = atl_criado_em a \<and>
   atl_categoria_id (fold setattr kvs a) = atl_categoria_id a \<and>
   atl_centro_treinamento_id (fold setattr kvs a) = atl_centro_treinamento_id a"
proof (induction kvs arbitrary: a)
  case Nil
  show ?case by simp
next
  case (Cons kv kvs)
  show ?case by (cases kv) (simp_all add: Cons.IH)
qed

lemma merge_nome:
  "atl_nome (fold setattr (model_dump_exclude_unset u) a) =
     (case aup_nome u of None \<Rightarrow> atl_nome a | Some v \<Rightarrow> v)"
  by (simp add: model_dump_exclude_unset_def set_fields_def split: option.split)

lemma merge_cpf:
  "atl_cpf (fold setattr (model_dump_exclude_unset u) a) =
     (case aup_cpf u of None \<Rightarrow> atl_cpf a | Some v \<Rightarrow> v)"
  by (simp add: model_dump_exclude_unset_def set_fields_def split: option.split)

lemma merge_idade:
  "atl_idade (fold setattr (model_dump_exclude_unset u) a) =
     (case aup_idade u of None \<Rightarrow> atl_idade a | Some v \<Rightarrow> v)"
  by (simp add: model_dump_exclude_unset_def set_fields_def split: option.split)

lemma merge_peso:
  "atl_peso (fold setattr (model_dump_exclude_unset u) a) =
     (case aup_peso u of None \<Rightarrow> atl_peso a | Some v \<Rightarrow> v)"
  by (simp add: model_dump_exclude_unset_def set_fields_def split: option.split)

lemma merge_altura:
  "atl_altura (fold setattr (model_dump_exclude_unset u) a) =
     (case aup_altura u of None \<Rightarrow> atl_altura a | Some v \<Rightarrow> v)"
  by (simp add: model_dump_exclude_unset_def set_fields_def split: option.split)

lemma merge_sexo:
  "atl_sexo (fold setattr (model_dump_exclude_unset u) a) =
     (case aup_sexo u of None \<Rightarrow> atl_sexo a | Some v \<Rightarrow> v)"
  by (simp add: model_dump_exclude_unset_def set_fields_def split: option.split)

lemma find_replaced:
  "x \<in> set xs \<Longrightarrow> f x' = f x \<Longrightarrow>
     find (\<lambda>r. f r = f x') (map (\<lambda>r. if f r = f x then x' else r) xs) = Some x'"
  by (induction xs) auto

text \<open>
  When the commit passes, the handler returns the row object after the loop, and the
  store holds it in the place of the row found.
\<close>

lemma partial_update_result:
  assumes rows: "atletas s = pre @ a # rest"
      and ida: "atl_id a = ident"
      and first: "ident \<notin> atl_id ` set pre"
      and cpf: "\<forall>c. aup_cpf atleta_up = Some c \<longrightarrow>
                   (\<forall>r \<in> set (atletas s). atl_cpf r = c \<longrightarrow> atl_pk_id r = atl_pk_id a)"
  shows "partial_update ident atleta_up s =
           (Inr (HTTP_200_OK, fold setattr (model_dump_exclude_unset atleta_up) a),
            s\<lparr>atletas :=
                 map (\<lambda>r. if atl_pk_id r = atl_pk_id a
                          then fold setattr (model_dump_exclude_unset atleta_up) a else r)
                   (atletas s)\<rparr>)"
proof -
  let ?a' = "fold setattr (model_dump_exclude_unset atleta_up) a"
  let ?s' = "s\<lparr>atletas := map (\<lambda>r. if atl_pk_id r = atl_pk_id a then ?a' else r) (atletas s)\<rparr>"
  note kept = fold_setattr_kept [of "model_dump_exclude_unset atleta_up" a]
  have found: "find (\<lambda>x. atl_id x = ident) (atletas s) = Some a"
    using find_first_match [OF rows ida first] .
  have mem: "a \<in> set (atletas s)"
    using rows by simp
  have commit: "commit_update_atleta a ?a' s = Inr ?s'"
  proof (cases "aup_cpf atleta_up")
    case None
    then have "atl_cpf ?a' = atl_cpf a" by (simp add: merge_cpf)
    then show ?thesis by (simp add: commit_update_atleta_def)
  next
    case (Some c)
    then have "atl_cpf ?a' = c" by (simp add: merge_cpf)
    moreover from cpf Some
    have "\<forall>r \<in> set (atletas s). atl_cpf r = c \<longrightarrow> atl_pk_id r = atl_pk_id a" by blast
    ultimately show ?thesis by (auto simp: commit_update_atleta_def)
  qed
  have "refresh ?a' ?s' = Some ?a'"
    using find_replaced [of a "atletas s" atl_pk_id ?a'] mem kept
    by (simp add: refresh_def)
  with found commit show ?thesis
    by (simp add: partial_update_def Let_def)
qed

text \<open>A patch that sets only \<open>peso\<close> returns the row with \<open>peso\<close> replaced.\<close>

lemma partial_update_only_peso:
  assumes rows: "atletas s = pre @ a # rest"
      and ida: "atl_id a = ident"
      and first: "ident \<notin> atl_id ` set pre"
  shows "fst (partial_update ident
                \<lparr>aup_nome = None, aup_cpf = None, aup_idade = None, aup_peso = Some v,
                 aup_altura = None, aup_sexo = None\<rparr> s) =
           Inr (HTTP_200_OK, a\<lparr>atl_peso := v\<rparr>)"
  using partial_update_result [OF rows ida first,
      of "\<lparr>aup_nome = None, aup_cpf = None, aup_idade = None, aup_peso = Some v,
           aup_altura = None, aup_sexo = None\<rparr>"]
  by (simp add: model_dump_exclude_unset_def set_fields_def)

text \<open>
  Claim C4, as stated, fails: a patch that sets \<open>cpf\<close> to the \<open>cpf\<close> of another athlete
  row violates the uniqueness of \<open>cpf\<close>; the commit raises \<open>IntegrityError\<close>, which
  \<open>partial_update\<close> does not catch, and no field of the row is overwritten.
\<close>

theorem partial_update_cpf_conflict_counterexample:
  "ex_joao \<in> set (atletas ex_store_atletas) \<and>
   partial_update (atl_id ex_joao) ex_patch_cpf ex_store_atletas =
     (Inl IntegrityError, ex_store_atletas)"
  by (simp add: partial_update_def commit_update_atleta_def model_dump_exclude_unset_def
      set_fields_def Let_def ex_defs)

text \<open>
  Claim C4, amended. Let \<open>a\<close> be the first athlete row with the id, and let the patch
  not set \<open>cpf\<close> to a value that a row with another primary key carries. Then
  \<open>partial_update\<close> returns, with status 200, the row \<open>a'\<close> in which every field set in
  the patch has the value of the patch and every other field has the value it has in
  \<open>a\<close>; the store afterwards holds \<open>a'\<close> in the place of \<open>a\<close> and is otherwise
  the store before.
\<close>

theorem partial_update_merges_set_fields:
  assumes rows: "atletas s = pre @ a # rest"
      and ida: "atl_id a = ident"
      and first: "ident \<notin> atl_id ` set pre"
      and cpf: "\<forall>c. aup_cpf atleta_up = Some c \<longrightarrow>
                   (\<forall>r \<in> set (atletas s). atl_cpf r = c \<longrightarrow> atl_pk_id r = atl_pk_id a)"
  shows "\<exists>a' s'. partial_update ident atleta_up s = (Inr (HTTP_200_OK, a'), s') \<and>
           atl_nome a' = (case aup_nome atleta_up of None \<Rightarrow> atl_nome a | Some v \<Rightarrow> v) \<and>
           atl_cpf a' = (case aup_cpf atleta_up of None \<Rightarrow> atl_cpf a | Some v \<Rightarrow> v) \<and>
           atl_idade a' = (case aup_idade atleta_up of None \<Rightarrow> atl_idade a | Some v \<Rightarrow> v) \<and>
           atl_peso a' = (case aup_peso atleta_up of None \<Rightarrow> atl_peso a | Some v \<Rightarrow> v) \<and>
           atl_altura a' = (case aup_altura atleta_up of None \<Rightarrow> atl_altura a | Some v \<Rightarrow> v) \<and>
           atl_sexo a' = (case aup_sexo atleta_up of None \<Rightarrow> atl_sexo a | Some v \<Rightarrow> v) \<and>
           atl_pk_id a' = atl_pk_id a \<and> atl_id a' = atl_id a \<and>
           atl_criado_em a' = atl_criado_em a \<and>
           atl_categoria_id a' = atl_categoria_id a \<and>
           atl_centro_treinamento_id a' = atl_centro_treinamento_id a \<and>
           atletas s' = map (\<lambda>r. if atl_pk_id r = atl_pk_id a then a' else r) (atletas s) \<and>
           categorias s' = categorias s \<and> centros_treinamento s' = centros_treinamento s"
proof -
  let ?a' = "fold setattr (model_dump_exclude_unset atleta_up) a"
  let ?s' = "s\<lparr>atletas := map (\<lambda>r. if atl_pk_id r = atl_pk_id a then ?a' else r) (atletas s)\<rparr>"
  note kept = fold_setattr_kept [of "model_dump_exclude_unset atleta_up" a]
  have res: "partial_update ident atleta_up s = (Inr (HTTP_200_OK, ?a'), ?s')"
    using partial_update_result [OF rows ida first cpf] .
  show ?thesis
    apply (rule exI [of _ ?a'])
    apply (rule exI [of _ ?s'])
    apply (simp only: res merge_nome merge_cpf merge_idade merge_peso merge_altura merge_sexo kept)
    apply simp
    done
qed

text \<open>
  The patch \<^verbatim>\<open>{"peso": 80.5}\<close> on the first example athlete: the row returned is
  the row before with \<open>peso\<close> replaced, so \<open>nome\<close>, \<open>cpf\<close>, \<open>idade\<close>, \<open>altura\<close> and
  \<open>sexo\<close> are as they were.
\<close>

theorem partial_update_merges_set_fields_witness:
  "atletas ex_store_atletas = [] @ ex_joao # [ex_outro_joao] \<and>
   atl_id ex_joao \<notin> atl_id ` set [] \<and>
   aup_cpf ex_patch_peso = None \<and>
   partial_update (atl_id ex_joao) ex_patch_peso ex_store_atletas =
     (Inr (HTTP_200_OK, ex_joao\<lparr>atl_peso := PyFloat 161 (- 1)\<rparr>),
      ex_store_atletas\<lparr>atletas := [ex_joao\<lparr>atl_peso := PyFloat 161 (- 1)\<rparr>, ex_outro_joao]\<rparr>)"
proof -
  have rows: "atletas ex_store_atletas = [] @ ex_joao # [ex_outro_joao]"
    by (simp add: ex_defs)
  have first: "atl_id ex_joao \<notin> atl_id ` set []"
    by simp
  have nocpf: "aup_cpf ex_patch_peso = None"
    by (simp add: ex_defs)
  then have cpf: "\<forall>c. aup_cpf ex_patch_peso = Some c \<longrightarrow>
      (\<forall>r \<in> set (atletas ex_store_atletas). atl_cpf r = c \<longrightarrow> atl_pk_id r = atl_pk_id ex_joao)"
    by simp
  from partial_update_merges_set_fields [OF rows refl first cpf]
  obtain a' s' where
    res: "partial_update (atl_id ex_joao) ex_patch_peso ex_store_atletas = (Inr (HTTP_200_OK, a'), s')"
    by blast
  have ev: "partial_update (atl_id ex_joao) ex_patch_peso ex_store_atletas =
     (Inr (HTTP_200_OK, ex_joao\<lparr>atl_peso := PyFloat 161 (- 1)\<rparr>),
      ex_store_atletas\<lparr>atletas := [ex_joao\<lparr>atl_peso := PyFloat 161 (- 1)\<rparr>, ex_outro_joao]\<rparr>)"
    by (simp add: partial_update_def commit_update_atleta_def refresh_def
        model_dump_exclude_unset_def set_fields_def Let_def ex_defs)
  from rows first nocpf ev res show ?thesis by blast
qed

lemma partial_update_missing_404:
  assumes "ident \<notin> atl_id ` set (atletas s)"
  shows "partial_update ident atleta_up s =
           (Inl (HTTPException HTTP_404_NOT_FOUND
                   (''Atleta n'' @ a_tilde @ ''o encontrada com o id: '' @ ident)), s)"
  using find_absent [OF assms] by (simp add: partial_update_def)

section \<open>Creating an athlete and reading it back\<close>

lemma validate_created:
  assumes c: "c \<in> set (categorias s)" and t: "t \<in> set (centros_treinamento s)"
      and pkc: "distinct (map cat_pk_id (categorias s))"
      and pkt: "distinct (map ct_pk_id (centros_treinamento s))"
      and fc: "atl_categoria_id row = cat_pk_id c"
      and ft: "atl_centro_treinamento_id row = ct_pk_id t"
  shows "AtletaOut_model_validate s row =
     Some \<lparr>aout_id = atl_id row, aout_criado_em = atl_criado_em row,
           aout_nome = atl_nome row, aout_cpf = atl_cpf row, aout_idade = atl_idade row,
           aout_peso = atl_peso row, aout_altura = atl_altura row, aout_sexo = atl_sexo row,
           aout_categoria = \<lparr>cin_nome = cat_nome c\<rparr>,
           aout_centro_treinamento = \<lparr>cta_nome = ct_nome t\<rparr>\<rparr>"
  using find_by_key_distinct [OF pkc c] find_by_key_distinct [OF pkt t] fc ft
  by (simp add: AtletaOut_model_validate_def atleta_categoria_def atleta_centro_treinamento_def)

text \<open>
  Claim C6, as stated, fails: with both names in the store, an input whose \<open>cpf\<close> is
  the \<open>cpf\<close> of an athlete row is refused with the 303 exception, and the response
  carries neither id nor timestamp.
\<close>

theorem post_duplicate_cpf_counterexample:
  "cin_nome (ain_categoria ex_atleta_in) \<in> cat_nome ` set (categorias ex_store_atletas) \<and>
   cta_nome (ain_centro_treinamento ex_atleta_in)
     \<in> ct_nome ` set (centros_treinamento ex_store_atletas) \<and>
   post ex_new_id 1700000720000000 ex_atleta_in ex_store_atletas =
     (Inl (HTTPException HTTP_303_SEE_OTHER
             (''J'' @ a_acute @ '' existe um atleta cadastrado com o cpf: 12345678900'')),
      ex_store_atletas)"
  by (simp add: post_def commit_add_atleta_def AtletaOut_def AtletaModel_def Let_def ex_defs)

text \<open>
  Claim C6, amended. Let both names of the input be in the store, let no athlete row
  carry the \<open>cpf\<close> of the input or the generated id, and let the primary keys of the
  category and training-centre tables be unique. Then \<open>post\<close> returns, with status 201,
  the output shape made of the generated id, the timestamp and every field of the input,
  the two nested objects included; \<open>get_by_id\<close> of the generated id on the store
  afterwards returns, with status 200, a row that validates into that same output
  shape.
\<close>

theorem post_then_get_by_id_roundtrip:
  assumes cat: "cin_nome (ain_categoria atleta_in) \<in> cat_nome ` set (categorias s)"
      and ct: "cta_nome (ain_centro_treinamento atleta_in)
                 \<in> ct_nome ` set (centros_treinamento s)"
      and cpf: "ain_cpf atleta_in \<notin> atl_cpf ` set (atletas s)"
      and fresh: "new_id \<notin> atl_id ` set (atletas s)"
      and pkc: "distinct (map cat_pk_id (categorias s))"
      and pkt: "distinct (map ct_pk_id (centros_treinamento s))"
  shows "\<exists>out s' row.
           post new_id now atleta_in s = (Inr (HTTP_201_CREATED, out), s') \<and>
           aout_id out = new_id \<and> aout_criado_em out = now \<and>
           aout_nome out = ain_nome atleta_in \<and> aout_cpf out = ain_cpf atleta_in \<and>
           aout_idade out = ain_idade atleta_in \<and> aout_peso out = ain_peso atleta_in \<and>
           aout_altura out = ain_altura atleta_in \<and> aout_sexo out = ain_sexo atleta_in \<and>
           aout_categoria out = ain_categoria atleta_in \<and>
           aout_centro_treinamento out = ain_centro_treinamento atleta_in \<and>
           atleta_get_by_id new_id s' = Inr (HTTP_200_OK, row) \<and>
           AtletaOut_model_validate s' row = Some out"
proof -
  from find_present [OF cat] obtain c
    where c: "c \<in> set (categorias s)" "cat_nome c = cin_nome (ain_categoria atleta_in)"
      and fc: "find (\<lambda>c. cat_nome c = cin_nome (ain_categoria atleta_in)) (categorias s) = Some c"
    by blast
  from find_present [OF ct] obtain t
    where t: "t \<in> set (centros_treinamento s)"
             "ct_nome t = cta_nome (ain_centro_treinamento atleta_in)"
      and ft: "find (\<lambda>c. ct_nome c = cta_nome (ain_centro_treinamento atleta_in))
                 (centros_treinamento s) = Some t"
    by blast
  let ?out = "AtletaOut new_id now atleta_in"
  let ?row = "(AtletaModel ?out)
      \<lparr>atl_categoria_id := cat_pk_id c, atl_centro_treinamento_id := ct_pk_id t,
       atl_pk_id := next_pk (map atl_pk_id (atletas s))\<rparr>"
  let ?s' = "s\<lparr>atletas := atletas s @ [?row]\<rparr>"
  have commit: "commit_add_atleta ((AtletaModel ?out)
      \<lparr>atl_categoria_id := cat_pk_id c, atl_centro_treinamento_id := ct_pk_id t\<rparr>) s = Inr ?s'"
    using cpf by (simp add: commit_add_atleta_def AtletaModel_def AtletaOut_def)
  have res: "post new_id now atleta_in s = (Inr (HTTP_201_CREATED, ?out), ?s')"
    using fc ft commit by (simp add: post_def Let_def)
  have "find (\<lambda>a. atl_id a = new_id) (atletas ?s') = Some ?row"
    using find_appended [OF fresh, of ?row] by (simp add: AtletaModel_def AtletaOut_def)
  then have get: "atleta_get_by_id new_id ?s' = Inr (HTTP_200_OK, ?row)"
    by (simp add: atleta_get_by_id_def)
  have val: "AtletaOut_model_validate ?s' ?row = Some ?out"
    using validate_created [of c ?s' t ?row] c t pkc pkt
    by (simp add: AtletaModel_def AtletaOut_def)
  show ?thesis
    apply (rule exI [of _ ?out])
    apply (rule exI [of _ ?s'])
    apply (rule exI [of _ ?row])
    apply (simp only: res get val)
    apply (simp add: AtletaOut_def)
    done
qed

text \<open>
  The example input on the store that has the category \<open>Iniciante\<close> and the training
  centre \<open>CT King\<close> and no athlete yet.
\<close>

theorem post_then_get_by_id_roundtrip_witness:
  "cin_nome (ain_categoria ex_atleta_in) \<in> cat_nome ` set (categorias ex_store) \<and>
   cta_nome (ain_centro_treinamento ex_atleta_in) \<in> ct_nome ` set (centros_treinamento ex_store) \<and>
   ain_cpf ex_atleta_in \<notin> atl_cpf ` set (atletas ex_store) \<and>
   ex_new_id \<notin> atl_id ` set (atletas ex_store) \<and>
   distinct (map cat_pk_id (categorias ex_store)) \<and>
   distinct (map ct_pk_id (centros_treinamento ex_store)) \<and>
   (\<exists>out s' row.
      post ex_new_id 1700000000000000 ex_atleta_in ex_store = (Inr (HTTP_201_CREATED, out), s') \<and>
      aout_id out = ex_new_id \<and> aout_criado_em out = 1700000000000000 \<and>
      aout_categoria out = \<lparr>cin_nome = ''Iniciante''\<rparr> \<and>
      aout_centro_treinamento out = \<lparr>cta_nome = ''CT King''\<rparr> \<and>
      atleta_get_by_id ex_new_id s' = Inr (HTTP_200_OK, row) \<and>
      AtletaOut_model_validate s' row = Some out)"
proof -
  have h1: "cin_nome (ain_categoria ex_atleta_in) \<in> cat_nome ` set (categorias ex_store)"
    by (simp add: ex_defs)
  have h2: "cta_nome (ain_centro_treinamento ex_atleta_in)
              \<in> ct_nome ` set (centros_treinamento ex_store)"
    by (simp add: ex_defs)
  have h3: "ain_cpf ex_atleta_in \<notin> atl_cpf ` set (atletas ex_store)"
    by (simp add: ex_defs)
  have h4: "ex_new_id \<notin> atl_id ` set (atletas ex_store)"
    by (simp add: ex_defs)
  have h5: "distinct (map cat_pk_id (categorias ex_store))"
    by (simp add: ex_defs)
  have h6: "distinct (map ct_pk_id (centros_treinamento ex_store))"
    by (simp add: ex_defs)
  have n: "ain_categoria ex_atleta_in = \<lparr>cin_nome = ''Iniciante''\<rparr>"
          "ain_centro_treinamento ex_atleta_in = \<lparr>cta_nome = ''CT King''\<rparr>"
    by (simp_all add: ex_defs)
  from post_then_get_by_id_roundtrip [OF h1 h2 h3 h4 h5 h6, of 1700000000000000]
  obtain out s' row where
    "post ex_new_id 1700000000000000 ex_atleta_in ex_store = (Inr (HTTP_201_CREATED, out), s')"
    "aout_id out = ex_new_id" "aout_criado_em out = 1700000000000000"
    "aout_categoria out = ain_categoria ex_atleta_in"
    "aout_centro_treinamento out = ain_centro_treinamento ex_atleta_in"
    "atleta_get_by_id ex_new_id s' = Inr (HTTP_200_OK, row)"
    "AtletaOut_model_validate s' row = Some out"
    by blast
  with n have "\<exists>out s' row.
      post ex_new_id 1700000000000000 ex_atleta_in ex_store = (Inr (HTTP_201_CREATED, out), s') \<and>
      aout_id out = ex_new_id \<and> aout_criado_em out = 1700000000000000 \<and>
      aout_categoria out = \<lparr>cin_nome = ''Iniciante''\<rparr> \<and>
      aout_centro_treinamento out = \<lparr>cta_nome = ''CT King''\<rparr> \<and>
      atleta_get_by_id ex_new_id s' = Inr (HTTP_200_OK, row) \<and>
      AtletaOut_model_validate s' row = Some out"
    by auto
  with h1 h2 h3 h4 h5 h6 show ?thesis by blast
qed

text \<open>A duplicate \<open>cpf\<close> is refused whatever the store, and nothing is written.\<close>

lemma post_duplicate_cpf_303:
  assumes "cin_nome (ain_categoria atleta_in) \<in> cat_nome ` set (categorias s)"
      and "cta_nome (ain_centro_treinamento atleta_in) \<in> ct_nome ` set (centros_treinamento s)"
      and "ain_cpf atleta_in \<in> atl_cpf ` set (atletas s)"
  shows "post new_id now atleta_in s =
           (Inl (HTTPException HTTP_303_SEE_OTHER
                   (''J'' @ a_acute @ '' existe um atleta cadastrado com o cpf: ''
                      @ ain_cpf atleta_in)), s)"
proof -
  from find_present [OF assms(1)] obtain c
    where "find (\<lambda>c. cat_nome c = cin_nome (ain_categoria atleta_in)) (categorias s) = Some c"
    by blast
  moreover from find_present [OF assms(2)] obtain t
    where "find (\<lambda>c. ct_nome c = cta_nome (ain_centro_treinamento atleta_in))
             (centros_treinamento s) = Some t"
    by blast
  ultimately show ?thesis
    using assms(3)
    by (simp add: post_def commit_add_atleta_def AtletaOut_def AtletaModel_def Let_def)
qed

section \<open>The constraints of the store are kept\<close>

text \<open>
  A new primary key is not in its table; replacing the row of one primary key keeps a
  column unique when the new value is not that of a row with another key.
\<close>

lemma fold_max_ge:
  "(a::nat) \<le> fold max xs a \<and> (\<forall>x \<in> set xs. x \<le> fold max xs a)"
proof (induction xs arbitrary: a)
  case Nil
  show ?case by simp
next
  case (Cons x xs)
  from Cons.IH [of "max x a"] show ?case
    by (auto simp: max_def split: if_splits)
qed

lemma next_pk_fresh: "next_pk pks \<notin> set pks"
proof
  assume "next_pk pks \<in> set pks"
  with fold_max_ge [of 0 pks] have "next_pk pks \<le> fold max pks 0" by blast
  then show False by (simp add: next_pk_def)
qed

lemma distinct_map_replace:
  "distinct (map k xs) \<Longrightarrow> distinct (map g xs) \<Longrightarrow>
   (\<forall>r \<in> set xs. k r \<noteq> ka \<longrightarrow> g r \<noteq> g a') \<Longrightarrow>
   distinct (map g (map (\<lambda>r. if k r = ka then a' else r) xs))"
proof (induction xs)
  case Nil
  show ?case by simp
next
  case (Cons x xs)
  show ?case
  proof (cases "k x = ka")
    case True
    with Cons.prems(1) have "\<forall>r \<in> set xs. k r \<noteq> ka"
      by (auto simp: image_iff)
    then have same: "map (\<lambda>r. if k r = ka then a' else r) xs = xs"
      by (simp add: map_idI)
    from \<open>\<forall>r \<in> set xs. k r \<noteq> ka\<close> Cons.prems(3) have "g a' \<notin> g ` set xs"
      by (auto simp: image_iff)
    with Cons.prems(2) True same show ?thesis
      by simp
  next
    case False
    from Cons.prems have IH: "distinct (map g (map (\<lambda>r. if k r = ka then a' else r) xs))"
      by (intro Cons.IH) auto
    from Cons.prems(2) have "g x \<notin> g ` set xs" by simp
    moreover from Cons.prems(3) False have "g x \<noteq> g a'" by auto
    ultimately have "g x \<notin> (\<lambda>r. g (if k r = ka then a' else r)) ` set xs"
      by (auto simp: image_iff)
    with IH False show ?thesis by (simp add: comp_def)
  qed
qed

lemma categorias_create_ok:
  assumes "store_ok s"
  shows "store_ok (snd (categorias_create new_id categoria_in s))"
  using assms next_pk_fresh [of "map cat_pk_id (categorias s)"]
  by (auto simp: store_ok_def fk_resolved_def categorias_create_def commit_add_categoria_def
      CategoriaModel_def Let_def)

lemma centro_treinamento_create_ok:
  assumes "store_ok s"
  shows "store_ok (snd (centro_treinamento_create new_id centro_in s))"
  using assms next_pk_fresh [of "map ct_pk_id (centros_treinamento s)"]
  by (auto simp: store_ok_def fk_resolved_def centro_treinamento_create_def
      commit_add_centro_treinamento_def CentroTreinamentoModel_def Let_def)

lemma post_ok:
  assumes ok: "store_ok s" and fresh: "new_id \<notin> atl_id ` set (atletas s)"
  shows "store_ok (snd (post new_id now atleta_in s))"
proof (cases "find (\<lambda>c. cat_nome c = cin_nome (ain_categoria atleta_in)) (categorias s)")
  case None
  with ok show ?thesis by (simp add: post_def)
next
  case (Some c)
  note c = this
  show ?thesis
  proof (cases "find (\<lambda>c. ct_nome c = cta_nome (ain_centro_treinamento atleta_in))
                  (centros_treinamento s)")
    case None
    with ok c show ?thesis by (simp add: post_def)
  next
    case (Some t)
    from c have cm: "c \<in> set (categorias s)" by (auto simp: find_Some_iff)
    from Some have tm: "t \<in> set (centros_treinamento s)" by (auto simp: find_Some_iff)
    from ok fresh cm tm c Some next_pk_fresh [of "map atl_pk_id (atletas s)"]
    show ?thesis
      by (auto simp: post_def store_ok_def fk_resolved_def commit_add_atleta_def
          AtletaOut_def AtletaModel_def Let_def)
  qed
qed

lemma delete_ok:
  assumes "store_ok s"
  shows "store_ok (snd (delete ident s))"
  using assms
  by (auto simp: delete_def store_ok_def fk_resolved_def commit_delete_atleta_def
      distinct_map_filter split: option.splits)


lemma partial_update_ok:
  assumes ok: "store_ok s"
  shows "store_ok (snd (partial_update ident atleta_up s))"
proof (cases "find (\<lambda>a. atl_id a = ident) (atletas s)")
  case None
  with ok show ?thesis by (simp add: partial_update_def)
next
  case (Some a)
  let ?a' = "fold setattr (model_dump_exclude_unset atleta_up) a"
  let ?rows = "map (\<lambda>r. if atl_pk_id r = atl_pk_id a then ?a' else r) (atletas s)"
  let ?s' = "s\<lparr>atletas := ?rows\<rparr>"
  note kept = fold_setattr_kept [of "model_dump_exclude_unset atleta_up" a]
  from Some have mem: "a \<in> set (atletas s)" by (auto simp: find_Some_iff)
  show ?thesis
  proof (cases "commit_update_atleta a ?a' s")
    case (Inl e)
    with ok Some show ?thesis by (simp add: partial_update_def Let_def)
  next
    case (Inr s1)
    then have s1: "s1 = ?s'"
      and pass: "atl_cpf ?a' = atl_cpf a \<or>
                 (\<forall>r \<in> set (atletas s). atl_pk_id r \<noteq> atl_pk_id a \<longrightarrow> atl_cpf r \<noteq> atl_cpf ?a')"
      by (auto simp: commit_update_atleta_def split: if_splits)
    from ok have pk: "distinct (map atl_pk_id (atletas s))"
      and cpfs: "distinct (map atl_cpf (atletas s))"
      and ids: "distinct (map atl_id (atletas s))"
      and fk: "fk_resolved s"
      by (simp_all add: store_ok_def)
    have other: "r \<noteq> a" if "r \<in> set (atletas s)" "atl_pk_id r \<noteq> atl_pk_id a" for r
      using that by auto
    have "distinct (map atl_pk_id ?rows)"
      using kept by (intro distinct_map_replace [OF pk pk]) simp
    moreover have "distinct (map atl_cpf ?rows)"
    proof (intro distinct_map_replace [OF pk cpfs] ballI impI)
      fix r assume r: "r \<in> set (atletas s)" "atl_pk_id r \<noteq> atl_pk_id a"
      from cpfs have "inj_on atl_cpf (set (atletas s))" by (simp add: distinct_map)
      with r mem other [OF r] have "atl_cpf r \<noteq> atl_cpf a" by (auto dest: inj_onD)
      with pass r show "atl_cpf r \<noteq> atl_cpf ?a'" by auto
    qed
    moreover have "distinct (map atl_id ?rows)"
    proof (intro distinct_map_replace [OF pk ids] ballI impI)
      fix r assume r: "r \<in> set (atletas s)" "atl_pk_id r \<noteq> atl_pk_id a"
      from ids have "inj_on atl_id (set (atletas s))" by (simp add: distinct_map)
      with r mem other [OF r] have "atl_id r \<noteq> atl_id a" by (auto dest: inj_onD)
      with kept show "atl_id r \<noteq> atl_id ?a'" by simp
    qed
    moreover have "fk_resolved ?s'"
      using fk mem kept by (auto simp: fk_resolved_def)
    ultimately have "store_ok ?s'"
      using ok by (simp add: store_ok_def)
    moreover have "snd (partial_update ident atleta_up s) = ?s'"
      using Some Inr s1 by (simp add: partial_update_def Let_def split: option.splits)
    ultimately show ?thesis by simp
  qed
qed

text \<open>
  Every store that the handlers produce from the empty store satisfies the
  constraints: the conditions on the store in the theorems above hold there.
\<close>

theorem reachable_store_ok: "reachable s \<Longrightarrow> store_ok s"
proof (induction rule: reachable.induct)
  case empty
  show ?case by (simp add: store_ok_def fk_resolved_def)
next
  case (categoria s new_id categoria_in)
  then show ?case by (simp add: categorias_create_ok)
next
  case (centro s new_id centro_in)
  then show ?case by (simp add: centro_treinamento_create_ok)
next
  case (atleta s new_id now atleta_in)
  then show ?case by (simp add: post_ok)
next
  case (patch s ident atleta_up)
  then show ?case by (simp add: partial_update_ok)
next
  case (remove s ident)
  then show ?case by (simp add: delete_ok)
qed

end
